theory Spec2Isabelle
  imports Main "HOL-Library.Char_ord" "HOL-Library.List_Lexorder" "HOL-Library.AList"
begin

section \<open>Data model\<close>

text \<open>
  Go strings are byte sequences: \<^typ>\<open>string\<close> is a list of 8-bit characters, and the order
  of \<^theory_text>\<open>List_Lexorder\<close> over \<^theory_text>\<open>Char_ord\<close> is Go's bytewise string comparison, the
  order \<^verbatim>\<open>sort.Strings\<close> sorts by.
\<close>

record Profile =
  ID :: string
  GitUser :: string
  GitEmail :: string
  SSHKeyPath :: string

text \<open>
  A Go \<^verbatim>\<open>map[string]Profile\<close>: \<open>None\<close> is the nil map, \<open>Some al\<close> a map holding the
  entries of the association list \<open>al\<close>, whose keys are distinct. The order of \<open>al\<close> has
  no meaning in Go; every function below that walks a map says in which order.
\<close>

type_synonym profiles = "(string \<times> Profile) list"

record Config =
  Profiles :: "profiles option"

definition zeroProfile :: Profile where
  "zeroProfile = \<lparr>ID = [], GitUser = [], GitEmail = [], SSHKeyPath = []\<rparr>"

definition mapLookup :: "profiles option \<Rightarrow> string \<Rightarrow> Profile option" where
  "mapLookup m k = (case m of None \<Rightarrow> None | Some al \<Rightarrow> map_of al k)"

definition mapLen :: "profiles option \<Rightarrow> nat" where
  "mapLen m = (case m of None \<Rightarrow> 0 | Some al \<Rightarrow> length al)"

definition sortedKeys :: "profiles option \<Rightarrow> string list" where
  "sortedKeys m = (case m of None \<Rightarrow> [] | Some al \<Rightarrow> sort (map fst al))"

text \<open>\<open>m[k]\<close> as Go reads it: the zero value when the key is absent.\<close>

definition mapIndex :: "profiles option \<Rightarrow> string \<Rightarrow> Profile" where
  "mapIndex m k = (case mapLookup m k of None \<Rightarrow> zeroProfile | Some p \<Rightarrow> p)"

text \<open>The mapping a Go map denotes: what the claims call the profile mapping.\<close>

definition mappingOf :: "profiles option \<Rightarrow> (string \<rightharpoonup> Profile)" where
  "mappingOf m = (case m of None \<Rightarrow> Map.empty | Some al \<Rightarrow> map_of al)"

section \<open>Errors and output\<close>

datatype error =
    OSError string string
  | JSONError
  | ExecError
  | RequiredFlags
  | AlreadyExists string
  | NotFound string
  | UsageUse
  | UsageSetDefault
  | NoIdentity
  | NoProfiles
  | NoSelection
  | InvalidSelection
  | Setting string error
  | NotAGitRepo error
  | WritingHook string error

text \<open>
  \<open>OSError op path\<close> is the error of the \<^verbatim>\<open>os\<close> call \<open>op\<close> on \<open>path\<close>, \<open>JSONError\<close> a
  decoding error of \<^verbatim>\<open>encoding/json\<close>, \<open>ExecError\<close> the error of a \<^verbatim>\<open>git\<close> child that
  could not run or exited non-zero. The others are the \<^verbatim>\<open>fmt.Errorf\<close> sites of main.go:
  \<open>RequiredFlags\<close> "id, name and email are required", \<open>AlreadyExists id\<close> "profile %q
  already exists", \<open>NotFound id\<close> "profile %q not found", \<open>UsageUse\<close> and
  \<open>UsageSetDefault\<close> the two usage errors, \<open>NoIdentity\<close> "no user.name or user.email set
  in this repo", \<open>NoProfiles\<close> "no profiles configured; run `git-profile add` first",
  \<open>NoSelection\<close> "no selection made", \<open>InvalidSelection\<close> "invalid selection",
  \<open>Setting key e\<close> "setting <key>: %w", \<open>NotAGitRepo e\<close> "not a git repo? %w",
  \<open>WritingHook name e\<close> "writing hook %s: %w".

  Output is a list of chunks: \<open>S s\<close> the bytes \<open>s\<close>, \<open>Q s\<close> the string \<open>s\<close> under \<^verbatim>\<open>%q\<close>,
  \<open>D n\<close> the number \<open>n\<close> under \<^verbatim>\<open>%d\<close>, \<open>E e\<close> the message of the error \<open>e\<close> under
  \<^verbatim>\<open>%v\<close>, and \<open>FlagDiag name\<close> what the flag package prints for the flag set \<open>name\<close>
  before it ends the process (its error line and the flag defaults).
\<close>

datatype chunk = S string | Q string | D nat | E error | FlagDiag string

definition nl :: string where
  "nl = [CHR 0x0A]"

section \<open>encoding/json on Config\<close>

text \<open>
  A JSON text is modelled by the value it denotes; string literals and object keys hold
  their bytes after escape processing, objects keep the order and the repetitions of
  their members.
\<close>

datatype json =
    JNull
  | JBool bool
  | JNumber string
  | JString string
  | JArray "json list"
  | JObject "(string \<times> json) list"

definition byte :: "char \<Rightarrow> nat" where
  "byte c = of_char c"

definition cont :: "char \<Rightarrow> bool" where
  "cont c \<longleftrightarrow> 0x80 \<le> byte c \<and> byte c \<le> 0xBF"

text \<open>
  \<^verbatim>\<open>utf8.DecodeRuneInString\<close>: the number of bytes of the rune encoded at the head of the
  string, 0 where the head does not start a valid encoding (Go returns RuneError with
  size 1 there). Overlong forms, surrogates and values above U+10FFFF are invalid.
\<close>

fun runeLen :: "string \<Rightarrow> nat" where
  "runeLen [] = 0"
| "runeLen (b0 # rest) =
     (let x = byte b0 in
      if x < 0x80 then 1
      else if 0xC2 \<le> x \<and> x \<le> 0xDF then
        (case rest of b1 # _ \<Rightarrow> if cont b1 then 2 else 0 | _ \<Rightarrow> 0)
      else if 0xE0 \<le> x \<and> x \<le> 0xEF then
        (case rest of
           b1 # b2 # _ \<Rightarrow>
             if (if x = 0xE0 then 0xA0 else 0x80) \<le> byte b1
                \<and> byte b1 \<le> (if x = 0xED then 0x9F else 0xBF) \<and> cont b2
             then 3 else 0
         | _ \<Rightarrow> 0)
      else if 0xF0 \<le> x \<and> x \<le> 0xF4 then
        (case rest of
           b1 # b2 # b3 # _ \<Rightarrow>
             if (if x = 0xF0 then 0x90 else 0x80) \<le> byte b1
                \<and> byte b1 \<le> (if x = 0xF4 then 0x8F else 0xBF) \<and> cont b2 \<and> cont b3
             then 4 else 0
         | _ \<Rightarrow> 0)
      else 0)"

definition replacementChar :: string where
  "replacementChar = [CHR 0xEF, CHR 0xBF, CHR 0xBD]"

text \<open>
  Both directions of encoding/json coerce a string to valid UTF-8: every byte that does
  not start a valid encoding becomes U+FFFD. The first argument counts the bytes of the
  current rune still to be copied.
\<close>

fun coerceFrom :: "nat \<Rightarrow> string \<Rightarrow> string" where
  "coerceFrom k [] = []"
| "coerceFrom (Suc k) (b # rest) = b # coerceFrom k rest"
| "coerceFrom 0 (b # rest) =
     (case runeLen (b # rest) of
        0 \<Rightarrow> replacementChar @ coerceFrom 0 rest
      | Suc n \<Rightarrow> b # coerceFrom n rest)"

definition toValidUTF8 :: "string \<Rightarrow> string" where
  "toValidUTF8 s = coerceFrom 0 s"

definition validUTF8 :: "string \<Rightarrow> bool" where
  "validUTF8 s \<longleftrightarrow> toValidUTF8 s = s"

definition validProfile :: "Profile \<Rightarrow> bool" where
  "validProfile p \<longleftrightarrow>
     validUTF8 (ID p) \<and> validUTF8 (GitUser p) \<and> validUTF8 (GitEmail p) \<and> validUTF8 (SSHKeyPath p)"

definition upper :: "char \<Rightarrow> char" where
  "upper c =
     (case map_of (zip ''abcdefghijklmnopqrstuvwxyz'' ''ABCDEFGHIJKLMNOPQRSTUVWXYZ'') c of
        None \<Rightarrow> c
      | Some u \<Rightarrow> u)"

text \<open>
  The decoder matches an object key to a struct field by exact name first, then under
  case folding. The field names here are ASCII, and the only runes outside ASCII that
  fold into ASCII are U+017F (long s, bytes C5 BF) and U+212A (Kelvin sign, bytes
  E2 84 AA). \<open>foldName\<close> folds those two and the ASCII letters, which decides equality
  with an ASCII name as Go's folding does.
\<close>

function foldName :: "string \<Rightarrow> string" where
  "foldName [] = []"
| "foldName (c # cs) =
     (if c = CHR 0xC5 \<and> take 1 cs = [CHR 0xBF] then CHR ''S'' # foldName (drop 1 cs)
      else if c = CHR 0xE2 \<and> take 2 cs = [CHR 0x84, CHR 0xAA] then CHR ''K'' # foldName (drop 2 cs)
      else upper c # foldName cs)"
  by pat_completeness auto
termination
  by (relation "measure length") auto

definition findField :: "string list \<Rightarrow> string \<Rightarrow> string option" where
  "findField names key =
     (if key \<in> set names then Some key
      else find (\<lambda>n. foldName n = foldName key) names)"

text \<open>A JSON value stored into a Go string that holds \<open>cur\<close>: null leaves it as it is.\<close>

fun decodeString :: "json \<Rightarrow> string \<Rightarrow> error + string" where
  "decodeString (JString s) cur = Inr (toValidUTF8 s)"
| "decodeString JNull cur = Inr cur"
| "decodeString _ cur = Inl JSONError"

definition profileFields :: "string list" where
  "profileFields = [''id'', ''git_user'', ''git_email'', ''ssh_key_path'']"

definition getField :: "string \<Rightarrow> Profile \<Rightarrow> string" where
  "getField f p =
     (if f = ''id'' then ID p else if f = ''git_user'' then GitUser p
      else if f = ''git_email'' then GitEmail p else SSHKeyPath p)"

definition setField :: "string \<Rightarrow> string \<Rightarrow> Profile \<Rightarrow> Profile" where
  "setField f s p =
     (if f = ''id'' then p\<lparr>ID := s\<rparr> else if f = ''git_user'' then p\<lparr>GitUser := s\<rparr>
      else if f = ''git_email'' then p\<lparr>GitEmail := s\<rparr> else p\<lparr>SSHKeyPath := s\<rparr>)"

fun decodeProfileFields :: "(string \<times> json) list \<Rightarrow> Profile \<Rightarrow> error + Profile" where
  "decodeProfileFields [] p = Inr p"
| "decodeProfileFields ((k, v) # rest) p =
     (case findField profileFields (toValidUTF8 k) of
        None \<Rightarrow> decodeProfileFields rest p
      | Some f \<Rightarrow>
          (case decodeString v (getField f p) of
             Inl e \<Rightarrow> Inl e
           | Inr s \<Rightarrow> decodeProfileFields rest (setField f s p)))"

text \<open>A map element is decoded into a fresh zero Profile.\<close>

fun decodeProfile :: "json \<Rightarrow> error + Profile" where
  "decodeProfile JNull = Inr zeroProfile"
| "decodeProfile (JObject fs) = decodeProfileFields fs zeroProfile"
| "decodeProfile _ = Inl JSONError"

fun decodeEntries :: "(string \<times> json) list \<Rightarrow> profiles \<Rightarrow> error + profiles" where
  "decodeEntries [] al = Inr al"
| "decodeEntries ((k, v) # rest) al =
     (case decodeProfile v of
        Inl e \<Rightarrow> Inl e
      | Inr p \<Rightarrow> decodeEntries rest (AList.update (toValidUTF8 k) p al))"

text \<open>
  A JSON value stored into a map field that holds \<open>cur\<close>: null makes it the nil map, an
  object is added to the entries already there (a nil map is allocated first).
\<close>

fun decodeMap :: "json \<Rightarrow> profiles option \<Rightarrow> error + profiles option" where
  "decodeMap JNull cur = Inr None"
| "decodeMap (JObject es) cur =
     (case decodeEntries es (case cur of None \<Rightarrow> [] | Some al \<Rightarrow> al) of
        Inl e \<Rightarrow> Inl e
      | Inr al \<Rightarrow> Inr (Some al))"
| "decodeMap _ cur = Inl JSONError"

fun decodeConfigFields :: "(string \<times> json) list \<Rightarrow> Config \<Rightarrow> error + Config" where
  "decodeConfigFields [] cfg = Inr cfg"
| "decodeConfigFields ((k, v) # rest) cfg =
     (case findField [''profiles''] (toValidUTF8 k) of
        None \<Rightarrow> decodeConfigFields rest cfg
      | Some f \<Rightarrow>
          (case decodeMap v (Profiles cfg) of
             Inl e \<Rightarrow> Inl e
           | Inr m \<Rightarrow> decodeConfigFields rest (cfg\<lparr>Profiles := m\<rparr>)))"

text \<open>\<^verbatim>\<open>Decode(cfg)\<close> into the Config \<open>cfg\<close> points to: null leaves it as it is.\<close>

fun decodeConfig :: "json \<Rightarrow> Config \<Rightarrow> error + Config" where
  "decodeConfig JNull cfg = Inr cfg"
| "decodeConfig (JObject fs) cfg = decodeConfigFields fs cfg"
| "decodeConfig _ cfg = Inl JSONError"

text \<open>
  \<^verbatim>\<open>Encode(cfg)\<close>: struct fields in declaration order, \<^verbatim>\<open>ssh_key_path\<close> left out when
  empty (omitempty), map entries in sorted key order, a nil map as null.
\<close>

definition encodeProfile :: "Profile \<Rightarrow> json" where
  "encodeProfile p =
     JObject ([(''id'', JString (toValidUTF8 (ID p))),
               (''git_user'', JString (toValidUTF8 (GitUser p))),
               (''git_email'', JString (toValidUTF8 (GitEmail p)))]
              @ (if SSHKeyPath p = [] then []
                 else [(''ssh_key_path'', JString (toValidUTF8 (SSHKeyPath p)))]))"

definition encodeMap :: "profiles option \<Rightarrow> json" where
  "encodeMap m =
     (case m of
        None \<Rightarrow> JNull
      | Some al \<Rightarrow> JObject (map (\<lambda>(k, p). (toValidUTF8 k, encodeProfile p)) (sort_key fst al)))"

definition encodeConfig :: "Config \<Rightarrow> json" where
  "encodeConfig cfg = JObject [(''profiles'', encodeMap (Profiles cfg))]"

section \<open>The world the process runs in\<close>

text \<open>
  A file holds a JSON text (modelled by the first value a decoder finds in it) or other
  bytes, which a JSON decoder rejects.
\<close>

datatype content = JSONDoc json | Raw string

record gitResult =
  ok :: bool
  gout :: string
  gerr :: string

text \<open>
  \<open>userConfigDir\<close> is what \<^verbatim>\<open>os.UserConfigDir\<close> returns (None: an error); \<open>osFails op path\<close>
  says that the \<^verbatim>\<open>os\<close> call \<open>op\<close> fails on \<open>path\<close> (for Open: with an error other than
  "does not exist"); \<open>files\<close> maps a path to the regular file there; \<open>git args\<close> is what
  the child process \<^verbatim>\<open>git args\<close> answers; \<open>mapIter\<close> is the order in which the runtime
  walks a map with the given keys; \<open>trace\<close> lists the argument lists of the git
  children run so far; \<open>loads\<close> counts the calls of loadConfig.
\<close>

record world =
  userConfigDir :: "string option"
  osFails :: "string \<Rightarrow> string \<Rightarrow> bool"
  files :: "string \<Rightarrow> content option"
  git :: "string list \<Rightarrow> gitResult"
  mapIter :: "string list \<Rightarrow> string list"
  stdin :: string
  stdout :: "chunk list"
  stderr :: "chunk list"
  trace :: "string list list"
  loads :: nat

text \<open>\<^verbatim>\<open>filepath.Join\<close> of a directory and a name; paths are kept as written.\<close>

definition joinPath :: "string \<Rightarrow> string \<Rightarrow> string" where
  "joinPath d name = (if d = [] then name else d @ ''/'' @ name)"

section \<open>Config file handling\<close>

definition defaultConfigPath :: "world \<Rightarrow> error + string" where
  "defaultConfigPath w =
     (case userConfigDir w of
        None \<Rightarrow> Inl (OSError ''UserConfigDir'' [])
      | Some cfgDir \<Rightarrow>
          (let dir = joinPath cfgDir ''gitprofile'' in
           if osFails w ''MkdirAll'' dir then Inl (OSError ''MkdirAll'' dir)
           else Inr (joinPath dir ''config.json'')))"

definition loadConfig :: "world \<Rightarrow> (error + Config \<times> string) \<times> world" where
  "loadConfig w0 =
     (let w = w0\<lparr>loads := loads w0 + 1\<rparr>;
          cfg = \<lparr>Profiles = Some []\<rparr>
      in case defaultConfigPath w of
           Inl e \<Rightarrow> (Inl e, w)
         | Inr path \<Rightarrow>
             if osFails w ''Open'' path then (Inl (OSError ''Open'' path), w)
             else
               (case files w path of
                  None \<Rightarrow> (Inr (cfg, path), w)
                | Some (Raw bs) \<Rightarrow> (Inl JSONError, w)
                | Some (JSONDoc j) \<Rightarrow>
                    (case decodeConfig j cfg of
                       Inl e \<Rightarrow> (Inl e, w)
                     | Inr cfg' \<Rightarrow>
                         (Inr (if Profiles cfg' = None then cfg'\<lparr>Profiles := Some []\<rparr> else cfg',
                               path), w))))"

definition saveConfig :: "Config \<Rightarrow> string \<Rightarrow> world \<Rightarrow> error option \<times> world" where
  "saveConfig cfg path w =
     (let tmp = path @ ''.tmp'' in
      if osFails w ''Create'' tmp then (Some (OSError ''Create'' tmp), w)
      else
        (let w1 = w\<lparr>files := (files w)(tmp \<mapsto> Raw [])\<rparr> in
         if osFails w ''Write'' tmp then (Some (OSError ''Write'' tmp), w1)
         else
           (let w2 = w1\<lparr>files := (files w1)(tmp \<mapsto> JSONDoc (encodeConfig cfg))\<rparr> in
            if osFails w ''Rename'' tmp then (Some (OSError ''Rename'' tmp), w2)
            else (None, w2\<lparr>files := (files w2)(path := files w2 tmp, tmp := None)\<rparr>))))"

section \<open>Git config helpers\<close>

text \<open>scope: ''global'' or anything else (treated as local).\<close>

definition configArgs :: "string \<Rightarrow> string \<Rightarrow> string \<Rightarrow> string list" where
  "configArgs scope key val =
     [''config''] @ (if scope = ''global'' then [''--global''] else []) @ [key, val]"

text \<open>\<^verbatim>\<open>cmd.Run()\<close> with the child's streams set to those of the process.\<close>

definition runGitConfig :: "string \<Rightarrow> string \<Rightarrow> string \<Rightarrow> world \<Rightarrow> error option \<times> world" where
  "runGitConfig scope key val w =
     (let args = configArgs scope key val; r = git w args
      in (if ok r then None else Some ExecError,
          w\<lparr>stdout := stdout w @ [S (gout r)], stderr := stderr w @ [S (gerr r)],
            trace := trace w @ [args]\<rparr>))"

section \<open>strings.TrimSpace and fmt.Sscanf\<close>

text \<open>
  The UTF-8 encodings of the runes that \<^verbatim>\<open>unicode.IsSpace\<close> (and fmt's own table) hold:
  U+0009 to U+000D, U+0020, U+0085, U+00A0, U+1680, U+2000 to U+200A, U+2028, U+2029,
  U+202F, U+205F, U+3000.
\<close>

definition spaces :: "string list" where
  "spaces =
     [[CHR 0x09], [CHR 0x0A], [CHR 0x0B], [CHR 0x0C], [CHR 0x0D], [CHR 0x20],
      [CHR 0xC2, CHR 0x85], [CHR 0xC2, CHR 0xA0], [CHR 0xE1, CHR 0x9A, CHR 0x80],
      [CHR 0xE2, CHR 0x80, CHR 0x80], [CHR 0xE2, CHR 0x80, CHR 0x81],
      [CHR 0xE2, CHR 0x80, CHR 0x82], [CHR 0xE2, CHR 0x80, CHR 0x83],
      [CHR 0xE2, CHR 0x80, CHR 0x84], [CHR 0xE2, CHR 0x80, CHR 0x85],
      [CHR 0xE2, CHR 0x80, CHR 0x86], [CHR 0xE2, CHR 0x80, CHR 0x87],
      [CHR 0xE2, CHR 0x80, CHR 0x88], [CHR 0xE2, CHR 0x80, CHR 0x89],
      [CHR 0xE2, CHR 0x80, CHR 0x8A], [CHR 0xE2, CHR 0x80, CHR 0xA8],
      [CHR 0xE2, CHR 0x80, CHR 0xA9], [CHR 0xE2, CHR 0x80, CHR 0xAF],
      [CHR 0xE2, CHR 0x81, CHR 0x9F], [CHR 0xE3, CHR 0x80, CHR 0x80]]"

text \<open>The number of bytes of the white-space rune at the head of the string, 0 if none.\<close>

definition spaceLen :: "string list \<Rightarrow> string \<Rightarrow> nat" where
  "spaceLen sps s =
     (case find (\<lambda>sp. take (length sp) s = sp) sps of None \<Rightarrow> 0 | Some sp \<Rightarrow> length sp)"

text \<open>Dropping leading white space; the counter holds the bytes of the current rune still to drop.\<close>

fun trimFrom :: "string list \<Rightarrow> nat \<Rightarrow> string \<Rightarrow> string" where
  "trimFrom sps k [] = []"
| "trimFrom sps (Suc k) (c # cs) = trimFrom sps k cs"
| "trimFrom sps 0 (c # cs) =
     (case spaceLen sps (c # cs) of 0 \<Rightarrow> c # cs | Suc n \<Rightarrow> trimFrom sps n cs)"

definition TrimSpace :: "string \<Rightarrow> string" where
  "TrimSpace s = rev (trimFrom (map rev spaces) 0 (rev (trimFrom spaces 0 s)))"

text \<open>
  \<^verbatim>\<open>ss.SkipSpace\<close> of Sscanf (where a newline is not white space): None is the error
  "unexpected newline".
\<close>

fun skipSpaceFrom :: "nat \<Rightarrow> string \<Rightarrow> string option" where
  "skipSpaceFrom k [] = Some []"
| "skipSpaceFrom (Suc k) (c # cs) = skipSpaceFrom k cs"
| "skipSpaceFrom 0 (c # cs) =
     (if c = CHR 0x0A then None
      else case spaceLen spaces (c # cs) of 0 \<Rightarrow> Some (c # cs) | Suc n \<Rightarrow> skipSpaceFrom n cs)"

definition isDigit :: "char \<Rightarrow> bool" where
  "isDigit c \<longleftrightarrow> c \<in> set ''0123456789''"

definition decimal :: "string \<Rightarrow> int" where
  "decimal ds = foldl (\<lambda>a c. 10 * a + (int (byte c) - 48)) 0 ds"

text \<open>
  \<^verbatim>\<open>fmt.Sscanf(line, "%d", &choice)\<close>: white space is skipped, one sign is accepted, then
  at least one decimal digit is needed and all digits that follow are taken; the token
  must fit a 64-bit int. What follows the digits is not read. None is an error.
\<close>

definition sscanfD :: "string \<Rightarrow> int option" where
  "sscanfD line =
     (case skipSpaceFrom 0 line of
        None \<Rightarrow> None
      | Some s \<Rightarrow>
          (let signed = (take 1 s = ''+'' \<or> take 1 s = ''-'');
               ds = takeWhile isDigit (if signed then drop 1 s else s);
               v = (if take 1 s = ''-'' then - decimal ds else decimal ds)
           in if ds = [] then None
              else if - (2 ^ 63) \<le> v \<and> v < 2 ^ 63 then Some v
              else None))"

text \<open>\<^verbatim>\<open>reader.ReadString('\n')\<close> on standard input, the error at end of input dropped.\<close>

definition readLine :: "string \<Rightarrow> string" where
  "readLine inp =
     (let a = takeWhile (\<lambda>c. c \<noteq> CHR 0x0A) inp
      in if length a < length inp then a @ nl else a)"

text \<open>
  \<^verbatim>\<open>cmd.Output()\<close> followed by \<^verbatim>\<open>strings.TrimSpace\<close>, as getGitConfig, getGitConfigGlobal and
  gitDir read a value: what the child printed, trimmed, or the error.
\<close>

definition commandOutput :: "world \<Rightarrow> string list \<Rightarrow> error + string" where
  "commandOutput w args =
     (if ok (git w args) then Inr (TrimSpace (gout (git w args))) else Inl ExecError)"

definition getGitConfig :: "string \<Rightarrow> world \<Rightarrow> (error + string) \<times> world" where
  "getGitConfig key w =
     (let args = [''config'', ''--get'', key]
      in (commandOutput w args, w\<lparr>trace := trace w @ [args]\<rparr>))"

definition getGitConfigGlobal :: "string \<Rightarrow> world \<Rightarrow> (error + string) \<times> world" where
  "getGitConfigGlobal key w =
     (let args = [''config'', ''--global'', ''--get'', key]
      in (commandOutput w args, w\<lparr>trace := trace w @ [args]\<rparr>))"

text \<open>The unset of applyProfile: its result and its output are dropped.\<close>

definition unsetSshCommand :: "world \<Rightarrow> world" where
  "unsetSshCommand w = w\<lparr>trace := trace w @ [[''config'', ''--unset'', ''core.sshCommand'']]\<rparr>"

definition sshCommand :: "string \<Rightarrow> string" where
  "sshCommand path = ''ssh -i '' @ path @ '' -F /dev/null''"

definition applyProfile :: "Profile \<Rightarrow> string \<Rightarrow> world \<Rightarrow> error option \<times> world" where
  "applyProfile p scope w =
     (case runGitConfig scope ''user.name'' (GitUser p) w of
        (Some e, w1) \<Rightarrow> (Some (Setting ''user.name'' e), w1)
      | (None, w1) \<Rightarrow>
          (case runGitConfig scope ''user.email'' (GitEmail p) w1 of
             (Some e, w2) \<Rightarrow> (Some (Setting ''user.email'' e), w2)
           | (None, w2) \<Rightarrow>
               if SSHKeyPath p \<noteq> [] then
                 (case runGitConfig scope ''core.sshCommand'' (sshCommand (SSHKeyPath p)) w2 of
                    (Some e, w3) \<Rightarrow> (Some (Setting ''core.sshCommand'' e), w3)
                  | (None, w3) \<Rightarrow> (None, w3))
               else if scope \<noteq> ''global'' then (None, unsetSshCommand w2)
               else (None, w2)))"

text \<open>The second applyProfile of main.go: it unsets only when scope is ''local''.\<close>

definition applyProfile_v2 :: "Profile \<Rightarrow> string \<Rightarrow> world \<Rightarrow> error option \<times> world" where
  "applyProfile_v2 p scope w =
     (case runGitConfig scope ''user.name'' (GitUser p) w of
        (Some e, w1) \<Rightarrow> (Some (Setting ''user.name'' e), w1)
      | (None, w1) \<Rightarrow>
          (case runGitConfig scope ''user.email'' (GitEmail p) w1 of
             (Some e, w2) \<Rightarrow> (Some (Setting ''user.email'' e), w2)
           | (None, w2) \<Rightarrow>
               if SSHKeyPath p \<noteq> [] then
                 (case runGitConfig scope ''core.sshCommand'' (sshCommand (SSHKeyPath p)) w2 of
                    (Some e, w3) \<Rightarrow> (Some (Setting ''core.sshCommand'' e), w3)
                  | (None, w3) \<Rightarrow> (None, w3))
               else if scope = ''local'' then (None, unsetSshCommand w2)
               else (None, w2)))"

definition gitDir :: "world \<Rightarrow> (error + string) \<times> world" where
  "gitDir w =
     (let args = [''rev-parse'', ''--git-dir'']
      in (commandOutput w args, w\<lparr>trace := trace w @ [args]\<rparr>))"

section \<open>The flag package\<close>

datatype flagKind = StringFlag | BoolFlag

text \<open>
  The result of \<^verbatim>\<open>fs.Parse(args)\<close>: the values set (the latest first) and the arguments
  left, or a parse error, or a help request (\<^verbatim>\<open>-h\<close>, \<^verbatim>\<open>-help\<close> where no such flag is
  defined).
\<close>

datatype parsed = Parsed "(string \<times> string) list" "string list" | BadFlag | HelpFlag

definition parseBool :: "string \<Rightarrow> bool option" where
  "parseBool s =
     (if s \<in> set [''1'', ''t'', ''T'', ''TRUE'', ''true'', ''True''] then Some True
      else if s \<in> set [''0'', ''f'', ''F'', ''FALSE'', ''false'', ''False''] then Some False
      else None)"

text \<open>A flag's name and the value after its first \<^verbatim>\<open>=\<close>, which cannot be the first byte.\<close>

definition splitEq :: "string \<Rightarrow> string \<times> string option" where
  "splitEq name =
     (if CHR ''='' \<in> set (drop 1 name)
      then (take 1 name @ takeWhile (\<lambda>c. c \<noteq> CHR ''='') (drop 1 name),
            Some (drop 1 (dropWhile (\<lambda>c. c \<noteq> CHR ''='') (drop 1 name))))
      else (name, None))"

text \<open>The text of a flag argument after its one or two minus signs.\<close>

definition flagText :: "string \<Rightarrow> string" where
  "flagText s = drop (if take 2 s = ''--'' then 2 else 1) s"

fun flagParse :: "(string \<times> flagKind) list \<Rightarrow> string list \<Rightarrow> (string \<times> string) list \<Rightarrow> parsed" where
  "flagParse formal [] vs = Parsed vs []"
| "flagParse formal (s # rest) vs =
     (if length s < 2 \<or> take 1 s \<noteq> ''-'' then Parsed vs (s # rest)
      else if s = ''--'' then Parsed vs rest
      else if flagText s = [] \<or> take 1 (flagText s) = ''-'' \<or> take 1 (flagText s) = ''=''
      then BadFlag
      else
        (let name = fst (splitEq (flagText s)); val = snd (splitEq (flagText s))
         in case map_of formal name of
              None \<Rightarrow> if name = ''help'' \<or> name = ''h'' then HelpFlag else BadFlag
            | Some BoolFlag \<Rightarrow>
                (case val of
                   None \<Rightarrow> flagParse formal rest ((name, ''true'') # vs)
                 | Some v \<Rightarrow>
                     (case parseBool v of
                        None \<Rightarrow> BadFlag
                      | Some b \<Rightarrow>
                          flagParse formal rest ((name, if b then ''true'' else ''false'') # vs)))
            | Some StringFlag \<Rightarrow>
                (case val of
                   Some v \<Rightarrow> flagParse formal rest ((name, v) # vs)
                 | None \<Rightarrow>
                     (case rest of
                        [] \<Rightarrow> BadFlag
                      | v # rest' \<Rightarrow> flagParse formal rest' ((name, v) # vs)))))"

definition flagString :: "(string \<times> string) list \<Rightarrow> string \<Rightarrow> string" where
  "flagString vs name = (case map_of vs name of None \<Rightarrow> [] | Some v \<Rightarrow> v)"

definition flagBool :: "(string \<times> string) list \<Rightarrow> string \<Rightarrow> bool" where
  "flagBool vs name \<longleftrightarrow> map_of vs name = Some ''true''"

section \<open>Commands\<close>

text \<open>
  How a command handler ends: it returns (an error or nil), or the process ends inside it
  with an exit code (\<^verbatim>\<open>flag.ExitOnError\<close>: 2 on a parse error, 0 on a help request), or
  it panics.
\<close>

datatype outcome = Return "error option" | Exit nat | Panic

definition printOut :: "chunk list \<Rightarrow> world \<Rightarrow> world" where
  "printOut cs w = w\<lparr>stdout := stdout w @ cs\<rparr>"

definition flagExit :: "string \<Rightarrow> nat \<Rightarrow> world \<Rightarrow> outcome \<times> world" where
  "flagExit name code w = (Exit code, w\<lparr>stderr := stderr w @ [FlagDiag name]\<rparr>)"

definition addFlags :: "(string \<times> flagKind) list" where
  "addFlags =
     [(''id'', StringFlag), (''name'', StringFlag), (''email'', StringFlag),
      (''ssh-key'', StringFlag)]"

definition globalFlag :: "(string \<times> flagKind) list" where
  "globalFlag = [(''global'', BoolFlag)]"

definition cmdAdd :: "string list \<Rightarrow> world \<Rightarrow> outcome \<times> world" where
  "cmdAdd args w =
     (case flagParse addFlags args [] of
        BadFlag \<Rightarrow> flagExit ''add'' 2 w
      | HelpFlag \<Rightarrow> flagExit ''add'' 0 w
      | Parsed vs rest \<Rightarrow>
          (let pid = flagString vs ''id''; name = flagString vs ''name'';
               email = flagString vs ''email''; sshKey = flagString vs ''ssh-key''
           in if pid = [] \<or> name = [] \<or> email = [] then (Return (Some RequiredFlags), w)
              else
                (case loadConfig w of
                   (Inl e, w1) \<Rightarrow> (Return (Some e), w1)
                 | (Inr (cfg, path), w1) \<Rightarrow>
                     if mapLookup (Profiles cfg) pid \<noteq> None
                     then (Return (Some (AlreadyExists pid)), w1)
                     else
                       (case Profiles cfg of
                          None \<Rightarrow> (Panic, w1)
                        | Some al \<Rightarrow>
                            (let p = \<lparr>ID = pid, GitUser = name, GitEmail = email,
                                       SSHKeyPath = sshKey\<rparr>;
                                 cfg' = cfg\<lparr>Profiles := Some (AList.update pid p al)\<rparr>
                             in case saveConfig cfg' path w1 of
                                  (Some e, w2) \<Rightarrow> (Return (Some e), w2)
                                | (None, w2) \<Rightarrow>
                                    (Return None,
                                     printOut [S ''Added profile '', Q pid, S nl] w2))))))"

definition listLine :: "Config \<Rightarrow> string \<Rightarrow> chunk" where
  "listLine cfg pid =
     (let p = mapIndex (Profiles cfg) pid;
          ssh = (if SSHKeyPath p = [] then ''(default SSH)'' else SSHKeyPath p)
      in S (''  - '' @ pid @ '': '' @ GitUser p @ '' <'' @ GitEmail p @ ''>, ssh='' @ ssh @ nl))"

definition cmdList :: "string list \<Rightarrow> world \<Rightarrow> outcome \<times> world" where
  "cmdList args w =
     (case loadConfig w of
        (Inl e, w1) \<Rightarrow> (Return (Some e), w1)
      | (Inr (cfg, path), w1) \<Rightarrow>
          if mapLen (Profiles cfg) = 0
          then (Return None, printOut [S (''No profiles configured yet.'' @ nl)] w1)
          else (Return None,
                printOut (S (''Configured profiles:'' @ nl)
                          # map (listLine cfg) (sortedKeys (Profiles cfg))) w1))"

definition cmdUse :: "string list \<Rightarrow> world \<Rightarrow> outcome \<times> world" where
  "cmdUse args w =
     (case flagParse globalFlag args [] of
        BadFlag \<Rightarrow> flagExit ''use'' 2 w
      | HelpFlag \<Rightarrow> flagExit ''use'' 0 w
      | Parsed vs rest \<Rightarrow>
          (case rest of
             [] \<Rightarrow> (Return (Some UsageUse), w)
           | pid # _ \<Rightarrow>
               (case loadConfig w of
                  (Inl e, w1) \<Rightarrow> (Return (Some e), w1)
                | (Inr (cfg, path), w1) \<Rightarrow>
                    (case mapLookup (Profiles cfg) pid of
                       None \<Rightarrow> (Return (Some (NotFound pid)), w1)
                     | Some p \<Rightarrow>
                         (let scope = (if flagBool vs ''global'' then ''global'' else ''local'')
                          in case applyProfile p scope w1 of
                               (Some e, w2) \<Rightarrow> (Return (Some e), w2)
                             | (None, w2) \<Rightarrow>
                                 (Return None,
                                  printOut [S ''Applied profile '', Q pid,
                                            S ('' to '' @ scope @ '' git config'' @ nl)] w2))))))"

text \<open>What cmdCurrent prints for the values it could read.\<close>

definition identityLines :: "error + string \<Rightarrow> error + string \<Rightarrow> chunk list" where
  "identityLines name email =
     [S (''Current git identity (this repo):'' @ nl)]
     @ (case name of Inr n \<Rightarrow> [S (''  user.name  = '' @ n @ nl)] | Inl _ \<Rightarrow> [])
     @ (case email of Inr m \<Rightarrow> [S (''  user.email = '' @ m @ nl)] | Inl _ \<Rightarrow> [])"

definition sshLine :: "error + string \<Rightarrow> chunk list" where
  "sshLine ssh =
     (case ssh of
        Inr c \<Rightarrow>
          if c \<noteq> [] then [S (''  core.sshCommand = '' @ c @ nl)]
          else [S (''  core.sshCommand = (default)'' @ nl)]
      | Inl _ \<Rightarrow> [S (''  core.sshCommand = (default)'' @ nl)])"

definition defaultLine :: "string \<Rightarrow> error + string \<Rightarrow> chunk list" where
  "defaultLine scope def =
     (case def of
        Inr d \<Rightarrow>
          if d \<noteq> [] then [S (''  gitprofile.default ('' @ scope @ '') = '' @ d @ nl)] else []
      | Inl _ \<Rightarrow> [])"

definition cmdCurrent :: "string list \<Rightarrow> world \<Rightarrow> outcome \<times> world" where
  "cmdCurrent args w =
     (case getGitConfig ''user.name'' w of
        (name, w1) \<Rightarrow>
          (case getGitConfig ''user.email'' w1 of
             (email, w2) \<Rightarrow>
               if isl name \<and> isl email then (Return (Some NoIdentity), w2)
               else
                 (case getGitConfig ''core.sshCommand'' (printOut (identityLines name email) w2) of
                    (ssh, w3) \<Rightarrow>
                      (case getGitConfig ''gitprofile.default'' (printOut (sshLine ssh) w3) of
                         (def, w4) \<Rightarrow>
                           (case getGitConfigGlobal ''gitprofile.default''
                                   (printOut (defaultLine ''local'' def) w4) of
                              (globalDef, w5) \<Rightarrow>
                                (Return None, printOut (defaultLine ''global'' globalDef) w5))))))"

text \<open>The menu: one line per id, numbered from 1.\<close>

definition menuLine :: "Config \<Rightarrow> nat \<times> string \<Rightarrow> chunk list" where
  "menuLine cfg = (\<lambda>(i, pid).
     (let p = mapIndex (Profiles cfg) pid
      in [S ''  ['', D (i + 1),
          S (''] '' @ pid @ '': '' @ GitUser p @ '' <'' @ GitEmail p @ ''>'' @ nl)]))"

definition menu :: "Config \<Rightarrow> string list \<Rightarrow> chunk list" where
  "menu cfg ids = concat (map (menuLine cfg) (enumerate 0 ids))"

text \<open>
  The part of cmdChoose after the ids are listed: prompt, one line of standard input,
  selection. \<open>apply\<close> is the applyProfile of the file the cmdChoose stands in.
\<close>

definition chooseFrom ::
  "(Profile \<Rightarrow> string \<Rightarrow> world \<Rightarrow> error option \<times> world) \<Rightarrow> Config \<Rightarrow> string list \<Rightarrow> world
   \<Rightarrow> outcome \<times> world" where
  "chooseFrom apply cfg ids w =
     (let w1 = printOut [S ''Enter number: ''] w;
          line = TrimSpace (readLine (stdin w1))
      in if line = [] then (Return (Some NoSelection), w1)
         else
           (case sscanfD line of
              None \<Rightarrow> (Return (Some InvalidSelection), w1)
            | Some choice \<Rightarrow>
                if choice < 1 \<or> choice > int (length ids)
                then (Return (Some InvalidSelection), w1)
                else
                  (let selectedID = ids ! nat (choice - 1);
                       p = mapIndex (Profiles cfg) selectedID
                   in case apply p ''local'' w1 of
                        (Some e, w2) \<Rightarrow> (Return (Some e), w2)
                      | (None, w2) \<Rightarrow>
                          (Return None,
                           printOut [S ''Applied profile '', Q selectedID,
                                     S ('' to local repo'' @ nl)] w2))))"

definition cmdChoose :: "string list \<Rightarrow> world \<Rightarrow> outcome \<times> world" where
  "cmdChoose args w =
     (case loadConfig w of
        (Inl e, w1) \<Rightarrow> (Return (Some e), w1)
      | (Inr (cfg, path), w1) \<Rightarrow>
          if mapLen (Profiles cfg) = 0 then (Return (Some NoProfiles), w1)
          else
            (let ids = sortedKeys (Profiles cfg)
             in chooseFrom applyProfile cfg ids
                  (printOut (S (''Select profile:'' @ nl) # menu cfg ids) w1)))"

text \<open>
  The second cmdChoose of main.go: it numbers and collects the ids in the order in which
  the runtime walks the map, and does not sort them.
\<close>

definition cmdChoose_v2 :: "string list \<Rightarrow> world \<Rightarrow> outcome \<times> world" where
  "cmdChoose_v2 args w =
     (case loadConfig w of
        (Inl e, w1) \<Rightarrow> (Return (Some e), w1)
      | (Inr (cfg, path), w1) \<Rightarrow>
          if mapLen (Profiles cfg) = 0 then (Return (Some NoProfiles), w1)
          else
            (let ids = mapIter w1 (sortedKeys (Profiles cfg))
             in chooseFrom applyProfile_v2 cfg ids
                  (printOut (S (''Select profile:'' @ nl) # menu cfg ids) w1)))"

definition cmdSetDefault :: "string list \<Rightarrow> world \<Rightarrow> outcome \<times> world" where
  "cmdSetDefault args w =
     (case flagParse globalFlag args [] of
        BadFlag \<Rightarrow> flagExit ''set-default'' 2 w
      | HelpFlag \<Rightarrow> flagExit ''set-default'' 0 w
      | Parsed vs rest \<Rightarrow>
          (case rest of
             [] \<Rightarrow> (Return (Some UsageSetDefault), w)
           | pid # _ \<Rightarrow>
               (case loadConfig w of
                  (Inl e, w1) \<Rightarrow> (Return (Some e), w1)
                | (Inr (cfg, path), w1) \<Rightarrow>
                    if mapLookup (Profiles cfg) pid = None
                    then (Return (Some (NotFound pid)), w1)
                    else
                      (let scope = (if flagBool vs ''global'' then ''global'' else ''local'')
                       in case runGitConfig scope ''gitprofile.default'' pid w1 of
                            (Some e, w2) \<Rightarrow> (Return (Some e), w2)
                          | (None, w2) \<Rightarrow>
                              (Return None,
                               printOut [S ''Set '', Q pid,
                                         S ('' as '' @ scope @ '' default profile'' @ nl)] w2)))))"

text \<open>
  A default read from git config names a profile when the read succeeded, the value is
  not empty and the config holds it.
\<close>

definition defaultProfile :: "Config \<Rightarrow> error + string \<Rightarrow> Profile option" where
  "defaultProfile cfg r =
     (case r of
        Inl _ \<Rightarrow> None
      | Inr def \<Rightarrow> if def \<noteq> [] then mapLookup (Profiles cfg) def else None)"

definition returned :: "error option \<times> world \<Rightarrow> outcome \<times> world" where
  "returned r = (Return (fst r), snd r)"

definition cmdEnsure :: "string list \<Rightarrow> world \<Rightarrow> outcome \<times> world" where
  "cmdEnsure args w =
     (case loadConfig w of
        (Inl e, w1) \<Rightarrow> (Return (Some e), w1)
      | (Inr (cfg, path), w1) \<Rightarrow>
          if mapLen (Profiles cfg) = 0 then (Return (Some NoProfiles), w1)
          else
            (case getGitConfig ''gitprofile.default'' w1 of
               (def, w2) \<Rightarrow>
                 (case defaultProfile cfg def of
                    Some p \<Rightarrow> returned (applyProfile p ''local'' w2)
                  | None \<Rightarrow>
                      (case getGitConfigGlobal ''gitprofile.default'' w2 of
                         (gdef, w3) \<Rightarrow>
                           (case defaultProfile cfg gdef of
                              Some p \<Rightarrow> returned (applyProfile p ''local'' w3)
                            | None \<Rightarrow> cmdChoose [] w3)))))"

definition hookContent :: string where
  "hookContent =
     ''#!/bin/sh'' @ nl
     @ ''# git-profile hook: ensure correct profile before commit/push'' @ nl
     @ ''git-profile ensure >/dev/null 2>&1 || true'' @ nl"

fun writeHooks :: "string \<Rightarrow> string list \<Rightarrow> world \<Rightarrow> error option \<times> world" where
  "writeHooks hooksDir [] w = (None, w)"
| "writeHooks hooksDir (name # rest) w =
     (let path = joinPath hooksDir name
      in if osFails w ''WriteFile'' path
         then (Some (WritingHook name (OSError ''WriteFile'' path)), w)
         else writeHooks hooksDir rest (w\<lparr>files := (files w)(path \<mapsto> Raw hookContent)\<rparr>))"

definition cmdInstallHooks :: "string list \<Rightarrow> world \<Rightarrow> outcome \<times> world" where
  "cmdInstallHooks args w =
     (case gitDir w of
        (Inl e, w1) \<Rightarrow> (Return (Some (NotAGitRepo e)), w1)
      | (Inr gd, w1) \<Rightarrow>
          (let hooksDir = joinPath gd ''hooks''
           in if osFails w1 ''MkdirAll'' hooksDir
              then (Return (Some (OSError ''MkdirAll'' hooksDir)), w1)
              else
                (case writeHooks hooksDir [''prepare-commit-msg'', ''pre-push''] w1 of
                   (Some e, w2) \<Rightarrow> (Return (Some e), w2)
                 | (None, w2) \<Rightarrow>
                     (Return None,
                      printOut
                        [S (''Installed git-profile hooks in '' @ hooksDir @ nl),
                         S (''From now on, normal `git commit` and `git push` will apply/ask for a profile.'' @ nl)]
                        w2))))"

section \<open>Usage and main\<close>

definition usageLines :: "string list" where
  \<open>usageLines =
     [''git-profile - manage multiple git/GitHub identity profiles'',
      [],
      ''Usage:'',
      ''  git-profile add         --id <id> --name "<User Name>" --email "email@example.com" [--ssh-key /path/to/key]'',
      ''  git-profile list'',
      ''  git-profile use         [--global] <id>'',
      ''  git-profile current'',
      ''  git-profile choose'',
      ''  git-profile set-default [--global] <id>'',
      ''  git-profile ensure'',
      ''  git-profile install-hooks'',
      [],
      ''Commands:'',
      ''  add           Add a new identity profile'',
      ''  list          List configured profiles'',
      ''  use           Apply a profile to this repo or globally'',
      ''  current       Show current git identity and defaults'',
      ''  choose        Interactively choose a profile and apply locally'',
      ''  set-default   Set per-repo or global default profile (stored in git config)'',
      ''  ensure        Apply repo default, then global default, otherwise prompt (used by hooks)'',
      ''  install-hooks Install hooks so plain \'git commit\' and \'git push\' call \'git-profile ensure'' @ [CHR 0x27]
     ]\<close>

definition usage :: "world \<Rightarrow> world" where
  "usage w = printOut [S (concat (map (\<lambda>l. l @ nl) usageLines))] w"

text \<open>What main does with a handler's outcome, and the exit code of the process.\<close>

definition finish :: "outcome \<times> world \<Rightarrow> nat \<times> world" where
  "finish r =
     (case r of
        (Return None, w) \<Rightarrow> (0, w)
      | (Return (Some e), w) \<Rightarrow> (1, w\<lparr>stderr := stderr w @ [S ''Error: '', E e, S nl]\<rparr>)
      | (Exit code, w) \<Rightarrow> (code, w)
      | (Panic, w) \<Rightarrow> (2, w))"

text \<open>\<open>osArgs\<close> is \<^verbatim>\<open>os.Args\<close>, the program name first.\<close>

definition main :: "string list \<Rightarrow> world \<Rightarrow> nat \<times> world" where
  "main osArgs w =
     (if length osArgs < 2 then (1, usage w)
      else
        (let cmd = osArgs ! 1; args = drop 2 osArgs
         in if cmd = ''add'' then finish (cmdAdd args w)
            else if cmd = ''list'' then finish (cmdList args w)
            else if cmd = ''use'' then finish (cmdUse args w)
            else if cmd = ''current'' then finish (cmdCurrent args w)
            else if cmd = ''choose'' then finish (cmdChoose args w)
            else if cmd = ''set-default'' then finish (cmdSetDefault args w)
            else if cmd = ''ensure'' then finish (cmdEnsure args w)
            else if cmd = ''install-hooks'' then finish (cmdInstallHooks args w)
            else if cmd = ''help'' \<or> cmd = ''-h'' \<or> cmd = ''--help'' then (0, usage w)
            else (1, usage (w\<lparr>stderr := stderr w @ [S (''Unknown command: '' @ cmd @ nl @ nl)]\<rparr>))))"

section \<open>Notions the properties are stated with\<close>

text \<open>The invariant of a Go map: no key twice.\<close>

definition distinctKeys :: "profiles option \<Rightarrow> bool" where
  "distinctKeys m = (case m of None \<Rightarrow> True | Some al \<Rightarrow> distinct (map fst al))"

text \<open>A config all of whose strings are valid UTF-8.\<close>

definition validConfig :: "Config \<Rightarrow> bool" where
  "validConfig cfg =
     (case Profiles cfg of
        None \<Rightarrow> True
      | Some al \<Rightarrow> list_all (\<lambda>(k, p). validUTF8 k \<and> validProfile p) al)"

text \<open>saveConfig followed by loadConfig: the config read back, or the first error.\<close>

definition saveThenLoad :: "Config \<Rightarrow> string \<Rightarrow> world \<Rightarrow> error + Config" where
  "saveThenLoad cfg path w =
     (case saveConfig cfg path w of
        (Some e, w') \<Rightarrow> Inl e
      | (None, w') \<Rightarrow> (case fst (loadConfig w') of Inl e \<Rightarrow> Inl e | Inr (cfg', _) \<Rightarrow> Inr cfg'))"

text \<open>
  A JSON document whose profiles field is null or missing: the document null, or an
  object in which every member the decoder stores into the profiles field is null.
\<close>

fun profilesNullOrMissing :: "json \<Rightarrow> bool" where
  "profilesNullOrMissing JNull = True"
| "profilesNullOrMissing (JObject fs) =
     list_all (\<lambda>(k, v). findField [''profiles''] (toValidUTF8 k) = None \<or> v = JNull) fs"
| "profilesNullOrMissing _ = False"

text \<open>The k-th smallest id of a profile mapping, counted from 1.\<close>

definition kthSmallestId :: "profiles option \<Rightarrow> nat \<Rightarrow> string" where
  "kthSmallestId m k = sorted_list_of_set (dom (mappingOf m)) ! (k - 1)"

text \<open>The line cmdChoose reads from standard input, trimmed.\<close>

definition inputLine :: "world \<Rightarrow> string" where
  "inputLine w = TrimSpace (readLine (stdin w))"

text \<open>The world in which cmdChoose selects: the config loaded, menu and prompt printed.\<close>

definition prompted :: "Config \<Rightarrow> string list \<Rightarrow> world \<Rightarrow> world" where
  "prompted cfg ids w =
     printOut [S ''Enter number: '']
       (printOut (S (''Select profile:'' @ nl) # menu cfg ids) (w\<lparr>loads := loads w + 1\<rparr>))"

text \<open>The git children a run has added to the trace.\<close>

definition newCommands :: "world \<Rightarrow> world \<Rightarrow> string list list" where
  "newCommands w w' = drop (length (trace w)) (trace w')"


text \<open>The argument lists of the git children that read a value.\<close>

definition getArgs :: "string \<Rightarrow> string list" where
  "getArgs key = [''config'', ''--get'', key]"

definition getGlobalArgs :: "string \<Rightarrow> string list" where
  "getGlobalArgs key = [''config'', ''--global'', ''--get'', key]"





definition alwaysReturns :: "outcome \<times> world \<Rightarrow> bool" where
  "alwaysReturns r = (case fst r of Return e \<Rightarrow> True | _ \<Rightarrow> False)"

section \<open>Example worlds\<close>

definition alice :: Profile where
  "alice = \<lparr>ID = ''alice'', GitUser = ''Alice A'', GitEmail = ''a@x.com'', SSHKeyPath = []\<rparr>"

definition bob :: Profile where
  "bob = \<lparr>ID = ''bob'', GitUser = ''Bob B'', GitEmail = ''b@x.com'',
          SSHKeyPath = ''/home/bob/.ssh/id_bob''\<rparr>"

definition aliceBob :: Config where
  "aliceBob = \<lparr>Profiles = Some [(''bob'', bob), (''alice'', alice)]\<rparr>"

definition cfgPath :: string where
  "cfgPath = ''/home/u/.config/gitprofile/config.json''"

text \<open>A git child that exits 0 and prints \<open>out\<close>, and one that exits non-zero.\<close>

definition prints :: "string \<Rightarrow> gitResult" where
  "prints out = \<lparr>ok = True, gout = out, gerr = []\<rparr>"

definition fails :: gitResult where
  "fails = \<lparr>ok = False, gout = [], gerr = []\<rparr>"

text \<open>A git that answers the listed argument lists as given and fails on every other.\<close>

definition answers :: "(string list \<times> gitResult) list \<Rightarrow> string list \<Rightarrow> gitResult" where
  "answers tbl args = (case map_of tbl args of None \<Rightarrow> fails | Some r \<Rightarrow> r)"

text \<open>A git in which every write succeeds silently and no key is set.\<close>

definition plainGit :: "string list \<Rightarrow> gitResult" where
  "plainGit args = (if ''--get'' \<in> set args then fails else prints [])"

text \<open>
  No config file yet, no failing system call, the runtime walks maps in sorted order,
  nothing on standard input.
\<close>

definition emptyWorld :: world where
  "emptyWorld =
     \<lparr>userConfigDir = Some ''/home/u/.config'', osFails = (\<lambda>op path. False),
      files = Map.empty, git = plainGit, mapIter = (\<lambda>ks. ks), stdin = [],
      stdout = [], stderr = [], trace = [], loads = 0\<rparr>"

text \<open>
  A user name typed as Latin-1: the byte E9 is not valid UTF-8. \<open>joseReloaded\<close> is the
  same config with U+FFFD in its place.
\<close>

definition jose :: Config where
  "jose =
     \<lparr>Profiles = Some [(''jose'', \<lparr>ID = ''jose'', GitUser = ''Jos'' @ [CHR 0xE9],
                                   GitEmail = ''j@x.com'', SSHKeyPath = []\<rparr>)]\<rparr>"

definition joseReloaded :: Config where
  "joseReloaded =
     \<lparr>Profiles = Some [(''jose'', \<lparr>ID = ''jose'', GitUser = ''Jos'' @ replacementChar,
                                   GitEmail = ''j@x.com'', SSHKeyPath = []\<rparr>)]\<rparr>"

text \<open>A config file written by hand, with a null profiles field under another spelling.\<close>

definition nullProfilesWorld :: world where
  "nullProfilesWorld =
     emptyWorld\<lparr>files := [cfgPath \<mapsto>
        JSONDoc (JObject [(''version'', JNumber ''1''), (''Profiles'', JNull)])]\<rparr>"





text \<open>The config file holds alice and bob.\<close>

definition storedWorld :: world where
  "storedWorld = emptyWorld\<lparr>files := [cfgPath \<mapsto> JSONDoc (encodeConfig aliceBob)]\<rparr>"

text \<open>
  The stored world with a line typed on standard input, and the same with a runtime that
  walks the map from the largest key down.
\<close>

definition typed :: "string \<Rightarrow> world" where
  "typed line = storedWorld\<lparr>stdin := line @ nl\<rparr>"

definition typedWalkingDown :: "string \<Rightarrow> world" where
  "typedWalkingDown line = storedWorld\<lparr>stdin := line @ nl, mapIter := rev\<rparr>"

text \<open>
  A git in which \<^verbatim>\<open>config --get gitprofile.default\<close> answers \<open>l\<close> and the same with
  \<^verbatim>\<open>--global\<close> answers \<open>g\<close>; every other child is as in \<open>plainGit\<close>.
\<close>

definition defaultsGit :: "gitResult \<Rightarrow> gitResult \<Rightarrow> string list \<Rightarrow> gitResult" where
  "defaultsGit l g args =
     (if args = getArgs ''gitprofile.default'' then l
      else if args = getGlobalArgs ''gitprofile.default'' then g
      else plainGit args)"

definition withDefaults :: "gitResult \<Rightarrow> gitResult \<Rightarrow> world" where
  "withDefaults l g = storedWorld\<lparr>git := defaultsGit l g, stdin := ''2'' @ nl\<rparr>"

text \<open>A repository in which only user.email is set.\<close>

definition emailOnlyWorld :: world where
  "emailOnlyWorld =
     emptyWorld\<lparr>git := answers [(getArgs ''user.email'', prints (''a@x.com'' @ nl))]\<rparr>"

text \<open>A repository whose git directory is .git, with alice and bob stored.\<close>

definition repoWorld :: world where
  "repoWorld =
     storedWorld\<lparr>git := answers [([''rev-parse'', ''--git-dir''], prints (''.git'' @ nl))]\<rparr>"

section \<open>Properties of the config store\<close>

lemma update_fresh: "k \<notin> fst ` set al \<Longrightarrow> AList.update k v al = al @ [(k, v)]"
  by (induction al) auto

lemma toValidUTF8_names:
  "toValidUTF8 ''id'' = ''id''" "toValidUTF8 ''git_user'' = ''git_user''"
  "toValidUTF8 ''git_email'' = ''git_email''" "toValidUTF8 ''ssh_key_path'' = ''ssh_key_path''"
  "toValidUTF8 ''profiles'' = ''profiles''"
  by (simp_all add: toValidUTF8_def byte_def)

lemma coerceFrom_numeral [simp]:
  "coerceFrom (numeral n) (b # rest) = b # coerceFrom (pred_numeral n) rest"
  by (simp add: numeral_eq_Suc)

lemma ascii_coerce: "\<forall>c \<in> set s. byte c < 0x80 \<Longrightarrow> coerceFrom 0 s = s"
  by (induction s) auto

lemma ascii_valid: "\<forall>c \<in> set s. byte c < 0x80 \<Longrightarrow> validUTF8 s"
  by (simp add: validUTF8_def toValidUTF8_def ascii_coerce)

lemma decodeProfile_encodeProfile:
  "validProfile p \<Longrightarrow> decodeProfile (encodeProfile p) = Inr p"
  by (simp add: encodeProfile_def validProfile_def validUTF8_def findField_def profileFields_def
      getField_def setField_def zeroProfile_def toValidUTF8_names)

lemma decodeEntries_encode:
  "list_all (\<lambda>(k, p). validUTF8 k \<and> validProfile p) xs \<Longrightarrow> distinct (map fst xs) \<Longrightarrow>
   fst ` set xs \<inter> fst ` set acc = {} \<Longrightarrow>
   decodeEntries (map (\<lambda>(k, p). (toValidUTF8 k, encodeProfile p)) xs) acc = Inr (acc @ xs)"
proof (induction xs arbitrary: acc)
  case Nil
  then show ?case by simp
next
  case (Cons x xs)
  obtain k p where x: "x = (k, p)" by (cases x)
  from Cons.prems x have v: "validUTF8 k" "validProfile p" by auto
  from Cons.prems x have fresh: "k \<notin> fst ` set acc" by auto
  have disj: "fst ` set xs \<inter> fst ` set (acc @ [(k, p)]) = {}"
    using Cons.prems x by auto
  have "decodeEntries (map (\<lambda>(k, p). (toValidUTF8 k, encodeProfile p)) xs) (acc @ [(k, p)])
        = Inr ((acc @ [(k, p)]) @ xs)"
    using Cons.prems disj by (intro Cons.IH) auto
  then show ?case
    using v fresh x by (simp add: decodeProfile_encodeProfile update_fresh validUTF8_def)
qed

lemma distinct_sort_key_fst: "distinct (map fst al) \<Longrightarrow> distinct (map fst (sort_key fst al))"
  by (simp add: distinct_map)

lemma map_of_sort_key: "distinct (map fst al) \<Longrightarrow> map_of (sort_key fst al) = map_of al"
  by (simp add: map_of_inject_set distinct_sort_key_fst)

lemma decodeConfig_encodeConfig:
  assumes "distinctKeys (Profiles cfg)" "validConfig cfg"
  shows "decodeConfig (encodeConfig cfg) \<lparr>Profiles = Some []\<rparr>
         = Inr \<lparr>Profiles = map_option (sort_key fst) (Profiles cfg)\<rparr>"
proof (cases "Profiles cfg")
  case None
  then show ?thesis
    by (simp add: encodeConfig_def encodeMap_def findField_def toValidUTF8_names)
next
  case (Some al)
  have "list_all (\<lambda>(k, p). validUTF8 k \<and> validProfile p) (sort_key fst al)"
    using assms(2) Some by (simp add: validConfig_def list_all_iff)
  moreover have "distinct (map fst (sort_key fst al))"
    using assms(1) Some by (simp add: distinctKeys_def distinct_sort_key_fst)
  ultimately have "decodeEntries (map (\<lambda>(k, p). (toValidUTF8 k, encodeProfile p)) (sort_key fst al)) []
      = Inr ([] @ sort_key fst al)"
    by (intro decodeEntries_encode) auto
  then show ?thesis
    using Some by (simp add: encodeConfig_def encodeMap_def findField_def toValidUTF8_names)
qed

lemma defaultConfigPath_upd [simp]:
  "defaultConfigPath (w\<lparr>files := f\<rparr>) = defaultConfigPath w"
  "defaultConfigPath (w\<lparr>loads := n\<rparr>) = defaultConfigPath w"
  "defaultConfigPath (w\<lparr>stdout := out\<rparr>) = defaultConfigPath w"
  "defaultConfigPath (w\<lparr>stderr := er\<rparr>) = defaultConfigPath w"
  "defaultConfigPath (w\<lparr>trace := t\<rparr>) = defaultConfigPath w"
  by (simp_all add: defaultConfigPath_def split: option.splits)

lemma saveConfig_success:
  "saveConfig cfg path w = (None, w') \<Longrightarrow>
   w' = w\<lparr>files := (files w)(path \<mapsto> JSONDoc (encodeConfig cfg), path @ ''.tmp'' := None)\<rparr>"
  by (auto simp: saveConfig_def Let_def split: if_splits)


lemma saveConfig_frame:
  "userConfigDir (snd (saveConfig cfg path w)) = userConfigDir w"
  "osFails (snd (saveConfig cfg path w)) = osFails w"
  "git (snd (saveConfig cfg path w)) = git w"
  "trace (snd (saveConfig cfg path w)) = trace w"
  "loads (snd (saveConfig cfg path w)) = loads w"
  by (simp_all add: saveConfig_def Let_def)

lemma loadConfig_world: "snd (loadConfig w) = w\<lparr>loads := loads w + 1\<rparr>"
  by (simp add: loadConfig_def Let_def split: sum.splits option.splits content.splits)

lemma loadConfig_world': "loadConfig w = (r, w') \<Longrightarrow> w' = w\<lparr>loads := loads w + 1\<rparr>"
  using loadConfig_world [of w] by simp


lemma decodeEntries_distinct:
  "decodeEntries es al = Inr al' \<Longrightarrow> distinct (map fst al) \<Longrightarrow> distinct (map fst al')"
proof (induction es arbitrary: al)
  case Nil
  then show ?case by simp
next
  case (Cons e es)
  obtain k v where e: "e = (k, v)" by (cases e)
  from Cons.prems(1) e obtain p where
    "decodeEntries es (AList.update (toValidUTF8 k) p al) = Inr al'"
    by (auto split: sum.splits)
  then show ?case
    using Cons.IH Cons.prems(2) by (blast intro: distinct_update)
qed

lemma decodeMap_distinct:
  "decodeMap j m = Inr m' \<Longrightarrow> distinctKeys m \<Longrightarrow> distinctKeys m'"
  by (cases j; cases m)
    (auto simp: distinctKeys_def split: sum.splits dest: decodeEntries_distinct)

lemma decodeConfigFields_distinct:
  "decodeConfigFields fs cfg = Inr cfg' \<Longrightarrow> distinctKeys (Profiles cfg)
   \<Longrightarrow> distinctKeys (Profiles cfg')"
proof (induction fs arbitrary: cfg)
  case Nil
  then show ?case by simp
next
  case (Cons f fs)
  obtain k v where f: "f = (k, v)" by (cases f)
  show ?case
  proof (cases "findField [''profiles''] (toValidUTF8 k)")
    case None
    then show ?thesis using Cons f by simp
  next
    case (Some n)
    with Cons.prems(1) f obtain m where
      m: "decodeMap v (Profiles cfg) = Inr m"
      and rest: "decodeConfigFields fs (cfg\<lparr>Profiles := m\<rparr>) = Inr cfg'"
      by (auto split: sum.splits)
    from m Cons.prems(2) have "distinctKeys m" by (rule decodeMap_distinct)
    with rest Cons.IH show ?thesis by simp
  qed
qed

lemma decodeConfig_distinct:
  "decodeConfig j cfg = Inr cfg' \<Longrightarrow> distinctKeys (Profiles cfg) \<Longrightarrow> distinctKeys (Profiles cfg')"
  by (cases j) (auto dest: decodeConfigFields_distinct)

lemma loadConfig_Inr:
  assumes "loadConfig w = (Inr (cfg, path), w')"
  shows "cfg = \<lparr>Profiles = Some []\<rparr>
         \<or> (\<exists>j cfg0. files w path = Some (JSONDoc j)
               \<and> decodeConfig j \<lparr>Profiles = Some []\<rparr> = Inr cfg0
               \<and> cfg = (if Profiles cfg0 = None then cfg0\<lparr>Profiles := Some []\<rparr> else cfg0))"
  using assms
  by (auto simp: loadConfig_def Let_def split: sum.splits option.splits content.splits if_splits)

lemma loadConfig_distinct:
  assumes "loadConfig w = (Inr (cfg, path), w')"
  shows "distinctKeys (Profiles cfg)"
proof -
  have init: "distinctKeys (Profiles \<lparr>Profiles = Some []\<rparr>)" by (simp add: distinctKeys_def)
  from loadConfig_Inr [OF assms] show ?thesis
  proof
    assume "cfg = \<lparr>Profiles = Some []\<rparr>"
    then show ?thesis by (simp add: distinctKeys_def)
  next
    assume "\<exists>j cfg0. files w path = Some (JSONDoc j)
               \<and> decodeConfig j \<lparr>Profiles = Some []\<rparr> = Inr cfg0
               \<and> cfg = (if Profiles cfg0 = None then cfg0\<lparr>Profiles := Some []\<rparr> else cfg0)"
    then obtain j cfg0 where d: "decodeConfig j \<lparr>Profiles = Some []\<rparr> = Inr cfg0"
      and c: "cfg = (if Profiles cfg0 = None then cfg0\<lparr>Profiles := Some []\<rparr> else cfg0)"
      by blast
    from decodeConfig_distinct [OF d init] c show ?thesis
      by (auto simp: distinctKeys_def)
  qed
qed

lemma loadConfig_not_nil:
  "loadConfig w = (Inr (cfg, path), w') \<Longrightarrow> Profiles cfg \<noteq> None"
  by (auto simp: loadConfig_def Let_def split: sum.splits option.splits content.splits if_splits)

lemmas world_defs =
  storedWorld_def emptyWorld_def nullProfilesWorld_def cfgPath_def aliceBob_def alice_def bob_def
  jose_def joseReloaded_def plainGit_def prints_def fails_def answers_def

lemmas store_defs =
  loadConfig_def saveConfig_def saveThenLoad_def defaultConfigPath_def joinPath_def
  encodeConfig_def encodeMap_def encodeProfile_def
  toValidUTF8_def validUTF8_def validProfile_def validConfig_def distinctKeys_def
  byte_def cont_def replacementChar_def findField_def profileFields_def getField_def setField_def
  zeroProfile_def mappingOf_def upper_def Let_def

text \<open>
  C1, amended. For every config with distinct keys whose ids, names, emails and key paths
  are valid UTF-8: if saveConfig to the default path succeeds and the file can be
  opened, loadConfig reads back a config that denotes the same mapping.
\<close>

theorem save_load_roundtrip:
  assumes wf: "distinctKeys (Profiles cfg)" and valid: "validConfig cfg"
    and path: "defaultConfigPath w = Inr path" and opens: "\<not> osFails w ''Open'' path"
    and save: "fst (saveConfig cfg path w) = None"
  shows "\<exists>cfg'. saveThenLoad cfg path w = Inr cfg'
           \<and> mappingOf (Profiles cfg') = mappingOf (Profiles cfg)"
proof -
  obtain w' where sv: "saveConfig cfg path w = (None, w')"
    using save by (cases "saveConfig cfg path w") auto
  note s = saveConfig_success [OF sv]
  let ?w = "w'\<lparr>loads := loads w' + 1\<rparr>"
  let ?cfg' = "\<lparr>Profiles = Some (case Profiles cfg of None \<Rightarrow> [] | Some al \<Rightarrow> sort_key fst al)\<rparr>"
  have p: "defaultConfigPath ?w = Inr path"
    using path by (simp add: s)
  have f: "files ?w path = Some (JSONDoc (encodeConfig cfg))"
    by (simp add: s)
  have o: "\<not> osFails ?w ''Open'' path" using opens by (simp add: s)
  have "loadConfig w' = (Inr (?cfg', path), ?w)"
    using p f o decodeConfig_encodeConfig [OF wf valid]
    by (cases "Profiles cfg") (simp_all add: loadConfig_def Let_def)
  then have "saveThenLoad cfg path w = Inr ?cfg'"
    using sv by (simp add: saveThenLoad_def)
  moreover have "mappingOf (Profiles ?cfg') = mappingOf (Profiles cfg)"
    using wf by (cases "Profiles cfg") (simp_all add: mappingOf_def distinctKeys_def map_of_sort_key)
  ultimately show ?thesis by blast
qed

theorem save_load_roundtrip_witness:
  "distinctKeys (Profiles aliceBob) \<and> validConfig aliceBob
   \<and> defaultConfigPath emptyWorld = Inr cfgPath \<and> \<not> osFails emptyWorld ''Open'' cfgPath
   \<and> fst (saveConfig aliceBob cfgPath emptyWorld) = None
   \<and> (\<exists>cfg'. saveThenLoad aliceBob cfgPath emptyWorld = Inr cfg'
           \<and> mappingOf (Profiles cfg') = mappingOf (Profiles aliceBob))"
proof -
  have h1: "distinctKeys (Profiles aliceBob)" by (simp add: world_defs store_defs)
  have h2: "validConfig aliceBob" by (simp add: world_defs store_defs)
  have h3: "defaultConfigPath emptyWorld = Inr cfgPath" by (simp add: world_defs store_defs)
  have h4: "\<not> osFails emptyWorld ''Open'' cfgPath" by (simp add: world_defs)
  have h5: "fst (saveConfig aliceBob cfgPath emptyWorld) = None" by (simp add: world_defs store_defs)
  from save_load_roundtrip [OF h1 h2 h3 h4 h5] h1 h2 h3 h4 h5 show ?thesis by blast
qed

text \<open>
  C1 as stated fails on a string that is not valid UTF-8: the config \<open>jose\<close> is saved
  without error and read back with another user name.
\<close>

theorem save_load_roundtrip_counterexample:
  "saveThenLoad jose cfgPath emptyWorld = Inr joseReloaded
   \<and> mappingOf (Profiles joseReloaded) \<noteq> mappingOf (Profiles jose)"
proof -
  have "saveThenLoad jose cfgPath emptyWorld = Inr joseReloaded"
    by (simp add: world_defs store_defs)
  moreover have "mappingOf (Profiles joseReloaded) ''jose'' \<noteq> mappingOf (Profiles jose) ''jose''"
    by (simp add: world_defs store_defs)
  ultimately show ?thesis by metis
qed

section \<open>loadConfig never yields the nil map\<close>

lemma decodeConfigFields_null:
  "list_all (\<lambda>(k, v). findField [''profiles''] (toValidUTF8 k) = None \<or> v = JNull) fs \<Longrightarrow>
   Profiles cfg = None \<or> Profiles cfg = Some [] \<Longrightarrow>
   \<exists>cfg'. decodeConfigFields fs cfg = Inr cfg' \<and> (Profiles cfg' = None \<or> Profiles cfg' = Some [])"
proof (induction fs arbitrary: cfg)
  case Nil
  then show ?case by simp
next
  case (Cons f fs)
  obtain k v where f: "f = (k, v)" by (cases f)
  show ?case
  proof (cases "findField [''profiles''] (toValidUTF8 k)")
    case None
    then show ?thesis using Cons f by simp
  next
    case (Some n)
    with Cons.prems(1) f have v: "v = JNull" by simp
    have "\<exists>cfg'. decodeConfigFields fs (cfg\<lparr>Profiles := None\<rparr>) = Inr cfg'
            \<and> (Profiles cfg' = None \<or> Profiles cfg' = Some [])"
      using Cons.prems(1) by (intro Cons.IH) simp_all
    then show ?thesis using Some f v by simp
  qed
qed

lemma decodeConfig_null:
  assumes "profilesNullOrMissing j"
  shows "\<exists>cfg'. decodeConfig j \<lparr>Profiles = Some []\<rparr> = Inr cfg'
           \<and> (Profiles cfg' = None \<or> Profiles cfg' = Some [])"
proof (cases j)
  case (JObject fs)
  then show ?thesis
    using assms decodeConfigFields_null [of fs "\<lparr>Profiles = Some []\<rparr>"] by simp
qed (use assms in simp_all)

lemma loadConfig_null:
  assumes path: "defaultConfigPath w = Inr path" and opens: "\<not> osFails w ''Open'' path"
    and doc: "files w path = Some (JSONDoc j)" and null: "profilesNullOrMissing j"
  shows "fst (loadConfig w) = Inr (\<lparr>Profiles = Some []\<rparr>, path)"
proof -
  from decodeConfig_null [OF null] obtain cfg' where
    d: "decodeConfig j \<lparr>Profiles = Some []\<rparr> = Inr cfg'"
    and p: "Profiles cfg' = None \<or> Profiles cfg' = Some []"
    by blast
  from p have "(if Profiles cfg' = None then cfg'\<lparr>Profiles := Some []\<rparr> else cfg')
      = \<lparr>Profiles = Some []\<rparr>"
    by (cases cfg') auto
  then show ?thesis
    using path opens doc d by (simp add: loadConfig_def Let_def)
qed

lemma loadConfig_missing:
  assumes "defaultConfigPath w = Inr path" "\<not> osFails w ''Open'' path" "files w path = None"
  shows "fst (loadConfig w) = Inr (\<lparr>Profiles = Some []\<rparr>, path)"
  using assms by (simp add: loadConfig_def Let_def)

lemma cmdAdd_no_panic: "fst (cmdAdd args w) \<noteq> Panic"
proof -
  have "fst (cmdAdd args w) = Panic \<Longrightarrow> False"
    by (auto simp: cmdAdd_def Let_def flagExit_def
        split: parsed.splits if_splits prod.splits sum.splits option.splits
        dest: loadConfig_not_nil)
  then show ?thesis by blast
qed

text \<open>
  C10. Whenever loadConfig returns a config, its profile map is not nil. When the config
  file does not exist the result is the empty mapping, without error; when the file
  holds a JSON document whose profiles field is null or missing, the result is the empty
  mapping as well. cmdAdd, the one handler that stores into the map, never panics.
\<close>

theorem loadConfig_never_nil:
  "(\<forall>cfg path w'. loadConfig w = (Inr (cfg, path), w') \<longrightarrow> Profiles cfg \<noteq> None)
   \<and> (\<forall>path. defaultConfigPath w = Inr path \<and> \<not> osFails w ''Open'' path
          \<and> files w path = None
        \<longrightarrow> fst (loadConfig w) = Inr (\<lparr>Profiles = Some []\<rparr>, path))
   \<and> (\<forall>path j. defaultConfigPath w = Inr path \<and> \<not> osFails w ''Open'' path
          \<and> files w path = Some (JSONDoc j) \<and> profilesNullOrMissing j
        \<longrightarrow> fst (loadConfig w) = Inr (\<lparr>Profiles = Some []\<rparr>, path))
   \<and> fst (cmdAdd args w) \<noteq> Panic"
  using loadConfig_not_nil loadConfig_missing loadConfig_null cmdAdd_no_panic by blast

theorem loadConfig_never_nil_witness:
  "loadConfig storedWorld
     = (Inr (\<lparr>Profiles = Some [(''alice'', alice), (''bob'', bob)]\<rparr>, cfgPath),
        storedWorld\<lparr>loads := 1\<rparr>)
   \<and> Profiles \<lparr>Profiles = Some [(''alice'', alice), (''bob'', bob)]\<rparr> \<noteq> None
   \<and> defaultConfigPath emptyWorld = Inr cfgPath \<and> \<not> osFails emptyWorld ''Open'' cfgPath
   \<and> files emptyWorld cfgPath = None
   \<and> fst (loadConfig emptyWorld) = Inr (\<lparr>Profiles = Some []\<rparr>, cfgPath)
   \<and> defaultConfigPath nullProfilesWorld = Inr cfgPath
   \<and> \<not> osFails nullProfilesWorld ''Open'' cfgPath
   \<and> files nullProfilesWorld cfgPath
       = Some (JSONDoc (JObject [(''version'', JNumber ''1''), (''Profiles'', JNull)]))
   \<and> profilesNullOrMissing (JObject [(''version'', JNumber ''1''), (''Profiles'', JNull)])
   \<and> fst (loadConfig nullProfilesWorld) = Inr (\<lparr>Profiles = Some []\<rparr>, cfgPath)"
proof -
  have l: "loadConfig storedWorld
     = (Inr (\<lparr>Profiles = Some [(''alice'', alice), (''bob'', bob)]\<rparr>, cfgPath),
        storedWorld\<lparr>loads := 1\<rparr>)"
    by (simp add: world_defs store_defs)
  have e: "defaultConfigPath emptyWorld = Inr cfgPath \<and> \<not> osFails emptyWorld ''Open'' cfgPath
     \<and> files emptyWorld cfgPath = None"
    by (simp add: world_defs store_defs)
  have n: "defaultConfigPath nullProfilesWorld = Inr cfgPath
     \<and> \<not> osFails nullProfilesWorld ''Open'' cfgPath
     \<and> files nullProfilesWorld cfgPath
         = Some (JSONDoc (JObject [(''version'', JNumber ''1''), (''Profiles'', JNull)]))
     \<and> profilesNullOrMissing (JObject [(''version'', JNumber ''1''), (''Profiles'', JNull)])"
    by (simp add: world_defs store_defs)
  from loadConfig_never_nil [of storedWorld "[]"] l
  have "Profiles \<lparr>Profiles = Some [(''alice'', alice), (''bob'', bob)]\<rparr> \<noteq> None"
    by blast
  moreover from loadConfig_never_nil [of emptyWorld "[]"] e
  have "fst (loadConfig emptyWorld) = Inr (\<lparr>Profiles = Some []\<rparr>, cfgPath)"
    by blast
  moreover from loadConfig_never_nil [of nullProfilesWorld "[]"] n
  have "fst (loadConfig nullProfilesWorld) = Inr (\<lparr>Profiles = Some []\<rparr>, cfgPath)"
    by blast
  ultimately show ?thesis using l e n by blast
qed

section \<open>The profile applier\<close>

lemma runGitConfig_eq:
  "runGitConfig scope key val w =
     (if ok (git w (configArgs scope key val)) then None else Some ExecError,
      w\<lparr>stdout := stdout w @ [S (gout (git w (configArgs scope key val)))],
        stderr := stderr w @ [S (gerr (git w (configArgs scope key val)))],
        trace := trace w @ [configArgs scope key val]\<rparr>)"
  by (simp add: runGitConfig_def Let_def)




lemmas git_defs =
  applyProfile_def applyProfile_v2_def runGitConfig_def configArgs_def sshCommand_def
  unsetSshCommand_def newCommands_def getGitConfig_def getGitConfigGlobal_def gitDir_def
  commandOutput_def


section \<open>The add command\<close>

lemma mapLookup_mappingOf: "mapLookup m k = mappingOf m k"
  by (simp add: mapLookup_def mappingOf_def split: option.splits)







lemmas cmd_defs =
  cmdAdd_def cmdList_def cmdUse_def cmdCurrent_def cmdChoose_def cmdChoose_v2_def
  cmdSetDefault_def cmdEnsure_def cmdInstallHooks_def chooseFrom_def
  mapLen_def mapLookup_def mapIndex_def sortedKeys_def menu_def menuLine_def listLine_def
  printOut_def returned_def defaultProfile_def identityLines_def sshLine_def defaultLine_def
  readLine_def nl_def TrimSpace_def spaces_def spaceLen_def sscanfD_def isDigit_def decimal_def
  inputLine_def prompted_def finish_def main_def usage_def byte_def


section \<open>The interactive selector\<close>

lemma sortedKeys_sorted_list:
  "distinctKeys m \<Longrightarrow> sortedKeys m = sorted_list_of_set (dom (mappingOf m))"
  by (cases m)
    (simp_all add: sortedKeys_def mappingOf_def distinctKeys_def dom_map_of_conv_image_fst
      sorted_list_of_set_sort_remdups distinct_remdups_id flip: set_map)

lemma kthSmallestId_sortedKeys:
  "distinctKeys m \<Longrightarrow> kthSmallestId m k = sortedKeys m ! (k - 1)"
  by (simp add: kthSmallestId_def sortedKeys_sorted_list)

lemma sortedKeys_length: "length (sortedKeys m) = mapLen m"
  by (cases m) (simp_all add: sortedKeys_def mapLen_def)

lemma sortedKeys_nth_mapped:
  assumes "i < mapLen m"
  shows "\<exists>p. mappingOf m (sortedKeys m ! i) = Some p \<and> mapIndex m (sortedKeys m ! i) = p"
proof -
  from assms obtain al where m: "m = Some al" by (cases m) (simp_all add: mapLen_def)
  have "sortedKeys m ! i \<in> set (sortedKeys m)"
    using assms by (simp add: sortedKeys_length)
  then have "sortedKeys m ! i \<in> fst ` set al"
    by (simp add: m sortedKeys_def)
  then obtain p where "map_of al (sortedKeys m ! i) = Some p"
    by (metis domD dom_map_of_conv_image_fst)
  then show ?thesis
    by (simp add: m mappingOf_def mapIndex_def mapLookup_def)
qed

lemma prompted_fields [simp]:
  "trace (prompted cfg ids w) = trace w" "stdin (prompted cfg ids w) = stdin w"
  "git (prompted cfg ids w) = git w" "files (prompted cfg ids w) = files w"
  "loads (prompted cfg ids w) = loads w + 1"
  by (simp_all add: prompted_def printOut_def)

lemma cmdChoose_nonempty:
  assumes "loadConfig w = (Inr (cfg, path), w1)" "mapLen (Profiles cfg) \<noteq> 0"
  shows "cmdChoose args w
         = chooseFrom applyProfile cfg (sortedKeys (Profiles cfg))
             (printOut (S (''Select profile:'' @ nl) # menu cfg (sortedKeys (Profiles cfg)))
                (w\<lparr>loads := loads w + 1\<rparr>))"
  using assms loadConfig_world' [OF assms(1)] by (simp add: cmdChoose_def Let_def)

lemma chooseFrom_reject:
  assumes "TrimSpace (readLine (stdin w)) = []
           \<or> sscanfD (TrimSpace (readLine (stdin w))) = None
           \<or> (\<exists>k. sscanfD (TrimSpace (readLine (stdin w))) = Some k
                 \<and> (k < 1 \<or> int (length ids) < k))"
  shows "chooseFrom apply cfg ids w
         = (Return (Some (if TrimSpace (readLine (stdin w)) = [] then NoSelection
                          else InvalidSelection)),
            printOut [S ''Enter number: ''] w)"
  using assms by (auto simp: chooseFrom_def Let_def printOut_def)

lemma chooseFrom_select:
  assumes "sscanfD (TrimSpace (readLine (stdin w))) = Some k" "1 \<le> k" "k \<le> int (length ids)"
  shows "chooseFrom apply cfg ids w
         = (case apply (mapIndex (Profiles cfg) (ids ! nat (k - 1))) ''local''
                  (printOut [S ''Enter number: ''] w) of
              (Some e, w2) \<Rightarrow> (Return (Some e), w2)
            | (None, w2) \<Rightarrow>
                (Return None,
                 printOut [S ''Applied profile '', Q (ids ! nat (k - 1)),
                           S ('' to local repo'' @ nl)] w2))"
proof -
  have "TrimSpace (readLine (stdin w)) \<noteq> []"
    using assms(1) by (auto simp: sscanfD_def Let_def split: option.splits)
  then show ?thesis
    using assms by (simp add: chooseFrom_def Let_def printOut_def)
qed

text \<open>
  The first cmdChoose of main.go, which sorts the ids. With N profiles stored and a
  line whose leading integer (as Sscanf reads it) is k with 1 \<le> k \<le> N, choose applies
  the profile whose id is the k-th smallest, by applyProfile at scope ''local'', in the
  world in which only the config was loaded and the menu and the prompt printed; its
  result is that of applyProfile and it runs no other git child.
\<close>

theorem cmdChoose_selects_kth_sorted:
  assumes load: "loadConfig w = (Inr (cfg, path), w1)"
    and scan: "sscanfD (inputLine w) = Some k" and lo: "1 \<le> k"
    and hi: "k \<le> int (mapLen (Profiles cfg))"
  shows "\<exists>p. mappingOf (Profiles cfg) (kthSmallestId (Profiles cfg) (nat k)) = Some p
           \<and> fst (cmdChoose args w)
               = Return (fst (applyProfile p ''local'' (prompted cfg (sortedKeys (Profiles cfg)) w)))
           \<and> trace (snd (cmdChoose args w))
               = trace (snd (applyProfile p ''local'' (prompted cfg (sortedKeys (Profiles cfg)) w)))
           \<and> trace (prompted cfg (sortedKeys (Profiles cfg)) w) = trace w"
proof -
  let ?ids = "sortedKeys (Profiles cfg)"
  let ?w = "printOut (S (''Select profile:'' @ nl) # menu cfg ?ids) (w\<lparr>loads := loads w + 1\<rparr>)"
  have ne: "mapLen (Profiles cfg) \<noteq> 0" using lo hi by auto
  have i: "nat (k - 1) < mapLen (Profiles cfg)" using lo hi by auto
  from sortedKeys_nth_mapped [OF i] obtain p where
    p: "mappingOf (Profiles cfg) (?ids ! nat (k - 1)) = Some p"
    and ix: "mapIndex (Profiles cfg) (?ids ! nat (k - 1)) = p"
    by blast
  have kth: "kthSmallestId (Profiles cfg) (nat k) = ?ids ! nat (k - 1)"
    using kthSmallestId_sortedKeys [OF loadConfig_distinct [OF load]] lo
    by (simp add: nat_diff_distrib)
  have scan': "sscanfD (TrimSpace (readLine (stdin ?w))) = Some k"
    using scan by (simp add: inputLine_def printOut_def)
  have hi': "k \<le> int (length ?ids)" using hi by (simp add: sortedKeys_length)
  have pr: "printOut [S ''Enter number: ''] ?w = prompted cfg ?ids w"
    by (simp add: prompted_def)
  have c: "cmdChoose args w
      = (case applyProfile p ''local'' (prompted cfg ?ids w) of
           (Some e, w2) \<Rightarrow> (Return (Some e), w2)
         | (None, w2) \<Rightarrow>
             (Return None,
              printOut [S ''Applied profile '', Q (?ids ! nat (k - 1)),
                        S ('' to local repo'' @ nl)] w2))"
    using cmdChoose_nonempty [OF load ne] chooseFrom_select [OF scan' lo hi'] ix pr by simp
  have "fst (cmdChoose args w) = Return (fst (applyProfile p ''local'' (prompted cfg ?ids w)))"
    and "trace (snd (cmdChoose args w)) = trace (snd (applyProfile p ''local'' (prompted cfg ?ids w)))"
    unfolding c by (auto simp: printOut_def split: prod.splits option.splits)
  with p kth show ?thesis by simp
qed

lemma load_typed:
  "loadConfig (typed line)
     = (Inr (\<lparr>Profiles = Some [(''alice'', alice), (''bob'', bob)]\<rparr>, cfgPath),
        typed line\<lparr>loads := 1\<rparr>)"
  by (simp add: typed_def world_defs store_defs)

theorem cmdChoose_selects_kth_sorted_witness:
  "sscanfD (inputLine (typed ''2'')) = Some 2 \<and> (1::int) \<le> 2
   \<and> (2::int) \<le> int (mapLen (Some [(''alice'', alice), (''bob'', bob)]))
   \<and> kthSmallestId (Some [(''alice'', alice), (''bob'', bob)]) 2 = ''bob''
   \<and> fst (cmdChoose [] (typed ''2'')) = Return None
   \<and> trace (snd (cmdChoose [] (typed ''2'')))
       = [[''config'', ''user.name'', ''Bob B''], [''config'', ''user.email'', ''b@x.com''],
          [''config'', ''core.sshCommand'', ''ssh -i /home/bob/.ssh/id_bob -F /dev/null'']]"
proof -
  let ?m = "Some [(''alice'', alice), (''bob'', bob)]"
  have s: "sscanfD (inputLine (typed ''2'')) = Some 2"
    by (simp add: typed_def world_defs cmd_defs)
  have h: "(2::int) \<le> int (mapLen (Profiles \<lparr>Profiles = ?m\<rparr>))"
    by (simp add: mapLen_def)
  have d: "distinctKeys ?m" by (simp add: distinctKeys_def)
  have k: "kthSmallestId ?m 2 = ''bob''"
    by (simp add: kthSmallestId_sortedKeys [OF d] sortedKeys_def)
  from cmdChoose_selects_kth_sorted [OF load_typed s _ h, of "[]"] obtain p where
    p: "mappingOf ?m (kthSmallestId ?m (nat 2)) = Some p"
    and r: "fst (cmdChoose [] (typed ''2''))
        = Return (fst (applyProfile p ''local''
            (prompted \<lparr>Profiles = ?m\<rparr> (sortedKeys ?m) (typed ''2''))))"
    and t: "trace (snd (cmdChoose [] (typed ''2'')))
        = trace (snd (applyProfile p ''local''
            (prompted \<lparr>Profiles = ?m\<rparr> (sortedKeys ?m) (typed ''2''))))"
    by auto
  from p k have pb: "p = bob" by (simp add: mappingOf_def)
  have "fst (cmdChoose [] (typed ''2'')) = Return None"
    unfolding r pb by (simp add: typed_def world_defs git_defs prompted_def printOut_def)
  moreover have "trace (snd (cmdChoose [] (typed ''2'')))
       = [[''config'', ''user.name'', ''Bob B''], [''config'', ''user.email'', ''b@x.com''],
          [''config'', ''core.sshCommand'', ''ssh -i /home/bob/.ssh/id_bob -F /dev/null'']]"
    unfolding t pb by (simp add: typed_def world_defs git_defs prompted_def printOut_def)
  ultimately show ?thesis using s h k by simp
qed

text \<open>
  C4. With the config loaded: when it holds no profile, choose fails with the
  no-profiles error before anything is printed or read. Otherwise an empty line (after
  trimming) fails with the no-selection error, and a line from which Sscanf reads no
  integer, or an integer below 1 or above the number of profiles, fails with the
  invalid-selection error; in both cases only the menu and the prompt were printed, no
  git child was run, and there is no second prompt.
\<close>

theorem cmdChoose_rejects:
  assumes load: "loadConfig w = (Inr (cfg, path), w1)"
  shows "(mapLen (Profiles cfg) = 0
           \<longrightarrow> cmdChoose args w = (Return (Some NoProfiles), w\<lparr>loads := loads w + 1\<rparr>))
         \<and> (mapLen (Profiles cfg) \<noteq> 0 \<and> inputLine w = []
           \<longrightarrow> cmdChoose args w
                 = (Return (Some NoSelection), prompted cfg (sortedKeys (Profiles cfg)) w)
               \<and> trace (snd (cmdChoose args w)) = trace w)
         \<and> (mapLen (Profiles cfg) \<noteq> 0 \<and> inputLine w \<noteq> []
             \<and> (sscanfD (inputLine w) = None
                 \<or> (\<exists>k. sscanfD (inputLine w) = Some k
                       \<and> (k < 1 \<or> int (mapLen (Profiles cfg)) < k)))
           \<longrightarrow> cmdChoose args w
                 = (Return (Some InvalidSelection), prompted cfg (sortedKeys (Profiles cfg)) w)
               \<and> trace (snd (cmdChoose args w)) = trace w)"
proof (intro conjI impI)
  let ?ids = "sortedKeys (Profiles cfg)"
  let ?w = "printOut (S (''Select profile:'' @ nl) # menu cfg ?ids) (w\<lparr>loads := loads w + 1\<rparr>)"
  have line: "TrimSpace (readLine (stdin ?w)) = inputLine w"
    by (simp add: inputLine_def printOut_def)
  have pr: "printOut [S ''Enter number: ''] ?w = prompted cfg ?ids w"
    by (simp add: prompted_def)
  show "cmdChoose args w = (Return (Some NoProfiles), w\<lparr>loads := loads w + 1\<rparr>)"
    if "mapLen (Profiles cfg) = 0"
    using that load loadConfig_world' [OF load] by (simp add: cmdChoose_def)
  show e: "cmdChoose args w = (Return (Some NoSelection), prompted cfg ?ids w)"
    if "mapLen (Profiles cfg) \<noteq> 0 \<and> inputLine w = []"
    using that cmdChoose_nonempty [OF load, of args]
      chooseFrom_reject [of ?w ?ids applyProfile cfg] line pr by simp
  show "trace (snd (cmdChoose args w)) = trace w"
    if "mapLen (Profiles cfg) \<noteq> 0 \<and> inputLine w = []"
    using e [OF that] by simp
  show i: "cmdChoose args w = (Return (Some InvalidSelection), prompted cfg ?ids w)"
    if "mapLen (Profiles cfg) \<noteq> 0 \<and> inputLine w \<noteq> []
        \<and> (sscanfD (inputLine w) = None
            \<or> (\<exists>k. sscanfD (inputLine w) = Some k \<and> (k < 1 \<or> int (mapLen (Profiles cfg)) < k)))"
    using that cmdChoose_nonempty [OF load, of args]
      chooseFrom_reject [of ?w ?ids applyProfile cfg] line pr
    by (simp add: sortedKeys_length)
  show "trace (snd (cmdChoose args w)) = trace w"
    if "mapLen (Profiles cfg) \<noteq> 0 \<and> inputLine w \<noteq> []
        \<and> (sscanfD (inputLine w) = None
            \<or> (\<exists>k. sscanfD (inputLine w) = Some k \<and> (k < 1 \<or> int (mapLen (Profiles cfg)) < k)))"
    using i [OF that] by simp
qed

lemma typed_lines:
  "inputLine (typed []) = []" "inputLine (typed ''abc'') = ''abc''"
  "inputLine (typed ''0'') = ''0''" "inputLine (typed ''99'') = ''99''"
  "sscanfD ''abc'' = None" "sscanfD ''0'' = Some 0" "sscanfD ''99'' = Some 99"
  by (simp_all add: typed_def world_defs cmd_defs)

theorem cmdChoose_rejects_witness:
  "loadConfig emptyWorld = (Inr (\<lparr>Profiles = Some []\<rparr>, cfgPath), emptyWorld\<lparr>loads := 1\<rparr>)
   \<and> cmdChoose [] emptyWorld = (Return (Some NoProfiles), emptyWorld\<lparr>loads := 1\<rparr>)
   \<and> fst (cmdChoose [] (typed [])) = Return (Some NoSelection)
   \<and> trace (snd (cmdChoose [] (typed []))) = []
   \<and> fst (cmdChoose [] (typed ''abc'')) = Return (Some InvalidSelection)
   \<and> trace (snd (cmdChoose [] (typed ''abc''))) = []
   \<and> fst (cmdChoose [] (typed ''0'')) = Return (Some InvalidSelection)
   \<and> trace (snd (cmdChoose [] (typed ''0''))) = []
   \<and> fst (cmdChoose [] (typed ''99'')) = Return (Some InvalidSelection)
   \<and> trace (snd (cmdChoose [] (typed ''99''))) = []"
proof -
  let ?cfg = "\<lparr>Profiles = Some [(''alice'', alice), (''bob'', bob)]\<rparr>"
  have le: "loadConfig emptyWorld
      = (Inr (\<lparr>Profiles = Some []\<rparr>, cfgPath), emptyWorld\<lparr>loads := 1\<rparr>)"
    by (simp add: world_defs store_defs)
  have n: "mapLen (Profiles ?cfg) \<noteq> 0" "int (mapLen (Profiles ?cfg)) < 99"
    by (simp_all add: mapLen_def)
  have t: "trace (typed line) = []" for line
    by (simp add: typed_def world_defs)
  from cmdChoose_rejects [OF le, of "[]"]
  have c0: "cmdChoose [] emptyWorld = (Return (Some NoProfiles), emptyWorld\<lparr>loads := 1\<rparr>)"
    by (simp add: mapLen_def emptyWorld_def)
  from cmdChoose_rejects [OF load_typed [of "[]"], of "[]"] n typed_lines
  have c1: "fst (cmdChoose [] (typed [])) = Return (Some NoSelection)"
    "trace (snd (cmdChoose [] (typed []))) = []"
    by (simp_all add: t)
  from cmdChoose_rejects [OF load_typed [of "''abc''"], of "[]"] n typed_lines
  have c2: "fst (cmdChoose [] (typed ''abc'')) = Return (Some InvalidSelection)"
    "trace (snd (cmdChoose [] (typed ''abc''))) = []"
    by (simp_all add: t)
  from cmdChoose_rejects [OF load_typed [of "''0''"], of "[]"] n typed_lines
  have c3: "fst (cmdChoose [] (typed ''0'')) = Return (Some InvalidSelection)"
    "trace (snd (cmdChoose [] (typed ''0''))) = []"
    by (simp_all add: t)
  from cmdChoose_rejects [OF load_typed [of "''99''"], of "[]"] n typed_lines
  have c4: "fst (cmdChoose [] (typed ''99'')) = Return (Some InvalidSelection)"
    "trace (snd (cmdChoose [] (typed ''99''))) = []"
    by (simp_all add: t)
  from le c0 c1 c2 c3 c4 show ?thesis by simp
qed

text \<open>
  C3 on the second cmdChoose of main.go, which does not sort: with alice and bob stored
  and a runtime that walks the map from bob to alice, the line "1" applies bob, while
  the smallest id is alice (and the first cmdChoose applies alice in the same world).
\<close>

theorem cmdChoose_v2_walk_order:
  "fst (loadConfig (typedWalkingDown ''1''))
     = Inr (\<lparr>Profiles = Some [(''alice'', alice), (''bob'', bob)]\<rparr>, cfgPath)
   \<and> sscanfD (inputLine (typedWalkingDown ''1'')) = Some 1
   \<and> kthSmallestId (Some [(''alice'', alice), (''bob'', bob)]) 1 = ''alice''
   \<and> fst (cmdChoose_v2 [] (typedWalkingDown ''1'')) = Return None
   \<and> trace (snd (cmdChoose_v2 [] (typedWalkingDown ''1'')))
       = [[''config'', ''user.name'', ''Bob B''], [''config'', ''user.email'', ''b@x.com''],
          [''config'', ''core.sshCommand'', ''ssh -i /home/bob/.ssh/id_bob -F /dev/null'']]
   \<and> trace (snd (cmdChoose [] (typedWalkingDown ''1'')))
       = [[''config'', ''user.name'', ''Alice A''], [''config'', ''user.email'', ''a@x.com''],
          [''config'', ''--unset'', ''core.sshCommand'']]"
proof -
  have d: "distinctKeys (Some [(''alice'', alice), (''bob'', bob)])"
    by (simp add: distinctKeys_def)
  have "kthSmallestId (Some [(''alice'', alice), (''bob'', bob)]) 1 = ''alice''"
    by (simp add: kthSmallestId_sortedKeys [OF d] sortedKeys_def)
  then show ?thesis
    by (simp add: typedWalkingDown_def world_defs store_defs cmd_defs git_defs)
qed

section \<open>ensure and current\<close>

lemma commandOutput_frame [simp]:
  "commandOutput (w\<lparr>trace := t\<rparr>) args = commandOutput w args"
  "commandOutput (w\<lparr>loads := n\<rparr>) args = commandOutput w args"
  "commandOutput (w\<lparr>stdout := out\<rparr>) args = commandOutput w args"
  by (simp_all add: commandOutput_def)

lemma defaultProfile_Some:
  "r = Inr d \<Longrightarrow> d \<noteq> [] \<Longrightarrow> mappingOf (Profiles cfg) d = Some p \<Longrightarrow> defaultProfile cfg r = Some p"
  by (simp add: defaultProfile_def mapLookup_mappingOf)

lemma defaultProfile_None:
  "(\<forall>d. r = Inr d \<and> d \<noteq> [] \<longrightarrow> mappingOf (Profiles cfg) d = None) \<Longrightarrow> defaultProfile cfg r = None"
  by (cases r) (simp_all add: defaultProfile_def mapLookup_mappingOf)

lemma cmdEnsure_nonempty:
  assumes load: "loadConfig w = (Inr (cfg, path), w1)" and ne: "mapLen (Profiles cfg) \<noteq> 0"
  shows "cmdEnsure args w =
     (case defaultProfile cfg (commandOutput w (getArgs ''gitprofile.default'')) of
        Some p \<Rightarrow>
          returned (applyProfile p ''local''
            (w\<lparr>loads := loads w + 1, trace := trace w @ [getArgs ''gitprofile.default'']\<rparr>))
      | None \<Rightarrow>
          (case defaultProfile cfg (commandOutput w (getGlobalArgs ''gitprofile.default'')) of
             Some p \<Rightarrow>
               returned (applyProfile p ''local''
                 (w\<lparr>loads := loads w + 1,
                    trace := trace w @ [getArgs ''gitprofile.default'',
                                        getGlobalArgs ''gitprofile.default'']\<rparr>))
           | None \<Rightarrow>
               cmdChoose []
                 (w\<lparr>loads := loads w + 1,
                    trace := trace w @ [getArgs ''gitprofile.default'',
                                        getGlobalArgs ''gitprofile.default'']\<rparr>)))"
  using load ne loadConfig_world' [OF load]
  by (simp add: cmdEnsure_def getGitConfig_def getGitConfigGlobal_def getArgs_def
      getGlobalArgs_def Let_def split: option.splits)

text \<open>
  C5. With a config of at least one profile loaded, ensure resolves in this order. If
  the read of gitprofile.default without \<^verbatim>\<open>--global\<close> gives a value that is not empty and
  is a key of the config, that profile is applied at scope ''local'' and the global
  default is not read. Otherwise (the read failed, or gave an empty value or an id the
  config does not hold: no error) the read with \<^verbatim>\<open>--global\<close> decides in the same way,
  again applying at scope ''local''. Otherwise ensure is cmdChoose.
\<close>

theorem cmdEnsure_resolution:
  assumes load: "loadConfig w = (Inr (cfg, path), w1)" and ne: "mapLen (Profiles cfg) \<noteq> 0"
  shows "(\<forall>d p. commandOutput w (getArgs ''gitprofile.default'') = Inr d \<and> d \<noteq> []
              \<and> mappingOf (Profiles cfg) d = Some p
            \<longrightarrow> cmdEnsure args w
                  = returned (applyProfile p ''local''
                      (w\<lparr>loads := loads w + 1,
                         trace := trace w @ [getArgs ''gitprofile.default'']\<rparr>)))
         \<and> ((\<forall>d. commandOutput w (getArgs ''gitprofile.default'') = Inr d \<and> d \<noteq> []
                  \<longrightarrow> mappingOf (Profiles cfg) d = None)
            \<longrightarrow> (\<forall>g p. commandOutput w (getGlobalArgs ''gitprofile.default'') = Inr g \<and> g \<noteq> []
                       \<and> mappingOf (Profiles cfg) g = Some p
                     \<longrightarrow> cmdEnsure args w
                           = returned (applyProfile p ''local''
                               (w\<lparr>loads := loads w + 1,
                                  trace := trace w @ [getArgs ''gitprofile.default'',
                                                      getGlobalArgs ''gitprofile.default'']\<rparr>)))
                \<and> ((\<forall>g. commandOutput w (getGlobalArgs ''gitprofile.default'') = Inr g \<and> g \<noteq> []
                         \<longrightarrow> mappingOf (Profiles cfg) g = None)
                     \<longrightarrow> cmdEnsure args w
                           = cmdChoose []
                               (w\<lparr>loads := loads w + 1,
                                  trace := trace w @ [getArgs ''gitprofile.default'',
                                                      getGlobalArgs ''gitprofile.default'']\<rparr>)))"
proof (intro conjI allI impI)
  note e = cmdEnsure_nonempty [OF load ne, of args]
  fix d p
  assume "commandOutput w (getArgs ''gitprofile.default'') = Inr d \<and> d \<noteq> []
          \<and> mappingOf (Profiles cfg) d = Some p"
  then have "defaultProfile cfg (commandOutput w (getArgs ''gitprofile.default'')) = Some p"
    by (simp add: defaultProfile_Some)
  then show "cmdEnsure args w
      = returned (applyProfile p ''local''
          (w\<lparr>loads := loads w + 1, trace := trace w @ [getArgs ''gitprofile.default'']\<rparr>))"
    using e by simp
next
  note e = cmdEnsure_nonempty [OF load ne, of args]
  fix g p
  assume l: "\<forall>d. commandOutput w (getArgs ''gitprofile.default'') = Inr d \<and> d \<noteq> []
               \<longrightarrow> mappingOf (Profiles cfg) d = None"
    and g: "commandOutput w (getGlobalArgs ''gitprofile.default'') = Inr g \<and> g \<noteq> []
            \<and> mappingOf (Profiles cfg) g = Some p"
  from l have "defaultProfile cfg (commandOutput w (getArgs ''gitprofile.default'')) = None"
    by (rule defaultProfile_None)
  moreover from g
  have "defaultProfile cfg (commandOutput w (getGlobalArgs ''gitprofile.default'')) = Some p"
    by (simp add: defaultProfile_Some)
  ultimately show "cmdEnsure args w
      = returned (applyProfile p ''local''
          (w\<lparr>loads := loads w + 1,
             trace := trace w @ [getArgs ''gitprofile.default'',
                                 getGlobalArgs ''gitprofile.default'']\<rparr>))"
    using e by simp
next
  note e = cmdEnsure_nonempty [OF load ne, of args]
  assume l: "\<forall>d. commandOutput w (getArgs ''gitprofile.default'') = Inr d \<and> d \<noteq> []
               \<longrightarrow> mappingOf (Profiles cfg) d = None"
    and g: "\<forall>g. commandOutput w (getGlobalArgs ''gitprofile.default'') = Inr g \<and> g \<noteq> []
               \<longrightarrow> mappingOf (Profiles cfg) g = None"
  from l have "defaultProfile cfg (commandOutput w (getArgs ''gitprofile.default'')) = None"
    by (rule defaultProfile_None)
  moreover from g
  have "defaultProfile cfg (commandOutput w (getGlobalArgs ''gitprofile.default'')) = None"
    by (rule defaultProfile_None)
  ultimately show "cmdEnsure args w
      = cmdChoose []
          (w\<lparr>loads := loads w + 1,
             trace := trace w @ [getArgs ''gitprofile.default'',
                                 getGlobalArgs ''gitprofile.default'']\<rparr>)"
    using e by simp
qed

lemmas more_world_defs =
  typed_def typedWalkingDown_def withDefaults_def defaultsGit_def emailOnlyWorld_def
  getArgs_def getGlobalArgs_def

lemma load_withDefaults:
  "loadConfig (withDefaults l g)
     = (Inr (\<lparr>Profiles = Some [(''alice'', alice), (''bob'', bob)]\<rparr>, cfgPath),
        withDefaults l g\<lparr>loads := 1\<rparr>)"
  by (simp add: more_world_defs world_defs store_defs)

theorem cmdEnsure_resolution_witness:
  "commandOutput (withDefaults (prints (''bob'' @ nl)) (prints (''alice'' @ nl)))
       (getArgs ''gitprofile.default'') = Inr ''bob''
   \<and> mappingOf (Some [(''alice'', alice), (''bob'', bob)]) ''bob'' = Some bob
   \<and> cmdEnsure [] (withDefaults (prints (''bob'' @ nl)) (prints (''alice'' @ nl)))
       = returned (applyProfile bob ''local''
           (withDefaults (prints (''bob'' @ nl)) (prints (''alice'' @ nl))
              \<lparr>loads := 1, trace := [getArgs ''gitprofile.default'']\<rparr>))
   \<and> commandOutput (withDefaults (prints (''ghost'' @ nl)) (prints (''alice'' @ nl)))
       (getArgs ''gitprofile.default'') = Inr ''ghost''
   \<and> mappingOf (Some [(''alice'', alice), (''bob'', bob)]) ''ghost'' = None
   \<and> commandOutput (withDefaults (prints (''ghost'' @ nl)) (prints (''alice'' @ nl)))
       (getGlobalArgs ''gitprofile.default'') = Inr ''alice''
   \<and> cmdEnsure [] (withDefaults (prints (''ghost'' @ nl)) (prints (''alice'' @ nl)))
       = returned (applyProfile alice ''local''
           (withDefaults (prints (''ghost'' @ nl)) (prints (''alice'' @ nl))
              \<lparr>loads := 1, trace := [getArgs ''gitprofile.default'',
                                      getGlobalArgs ''gitprofile.default'']\<rparr>))
   \<and> commandOutput (withDefaults fails (prints (''ghost'' @ nl)))
       (getArgs ''gitprofile.default'') = Inl ExecError
   \<and> cmdEnsure [] (withDefaults fails (prints (''ghost'' @ nl)))
       = cmdChoose []
           (withDefaults fails (prints (''ghost'' @ nl))
              \<lparr>loads := 1, trace := [getArgs ''gitprofile.default'',
                                      getGlobalArgs ''gitprofile.default'']\<rparr>)
   \<and> trace (snd (cmdEnsure [] (withDefaults fails (prints (''ghost'' @ nl)))))
       = [getArgs ''gitprofile.default'', getGlobalArgs ''gitprofile.default'',
          [''config'', ''user.name'', ''Bob B''], [''config'', ''user.email'', ''b@x.com''],
          [''config'', ''core.sshCommand'', ''ssh -i /home/bob/.ssh/id_bob -F /dev/null'']]"
proof -
  let ?cfg = "\<lparr>Profiles = Some [(''alice'', alice), (''bob'', bob)]\<rparr>"
  let ?w1 = "withDefaults (prints (''bob'' @ nl)) (prints (''alice'' @ nl))"
  let ?w2 = "withDefaults (prints (''ghost'' @ nl)) (prints (''alice'' @ nl))"
  let ?w3 = "withDefaults fails (prints (''ghost'' @ nl))"
  have ne: "mapLen (Profiles ?cfg) \<noteq> 0" by (simp add: mapLen_def)
  have m: "mappingOf (Profiles ?cfg) ''bob'' = Some bob"
    "mappingOf (Profiles ?cfg) ''alice'' = Some alice"
    "mappingOf (Profiles ?cfg) ''ghost'' = None"
    by (simp_all add: mappingOf_def)
  have r1: "commandOutput ?w1 (getArgs ''gitprofile.default'') = Inr ''bob''"
    by (simp add: more_world_defs world_defs cmd_defs commandOutput_def)
  have r2: "commandOutput ?w2 (getArgs ''gitprofile.default'') = Inr ''ghost''"
    "commandOutput ?w2 (getGlobalArgs ''gitprofile.default'') = Inr ''alice''"
    by (simp_all add: more_world_defs world_defs cmd_defs commandOutput_def)
  have r3: "commandOutput ?w3 (getArgs ''gitprofile.default'') = Inl ExecError"
    "commandOutput ?w3 (getGlobalArgs ''gitprofile.default'') = Inr ''ghost''"
    by (simp_all add: more_world_defs world_defs cmd_defs commandOutput_def)
  have z: "loads (withDefaults l g) = 0" "trace (withDefaults l g) = []" for l g
    by (simp_all add: more_world_defs world_defs)
  from cmdEnsure_resolution [OF load_withDefaults ne, of "prints (''bob'' @ nl)" "prints (''alice'' @ nl)" "[]"]
    r1 m(1)
  have c1: "cmdEnsure [] ?w1
       = returned (applyProfile bob ''local''
           (?w1\<lparr>loads := 1, trace := [getArgs ''gitprofile.default'']\<rparr>))"
    by (simp add: z)
  from cmdEnsure_resolution [OF load_withDefaults ne, of "prints (''ghost'' @ nl)" "prints (''alice'' @ nl)" "[]"]
    r2 m(2,3)
  have c2: "cmdEnsure [] ?w2
       = returned (applyProfile alice ''local''
           (?w2\<lparr>loads := 1, trace := [getArgs ''gitprofile.default'',
                                     getGlobalArgs ''gitprofile.default'']\<rparr>))"
    by (simp add: z)
  from cmdEnsure_resolution [OF load_withDefaults ne, of fails "prints (''ghost'' @ nl)" "[]"]
    r3 m(3)
  have c3: "cmdEnsure [] ?w3
       = cmdChoose []
           (?w3\<lparr>loads := 1, trace := [getArgs ''gitprofile.default'',
                                     getGlobalArgs ''gitprofile.default'']\<rparr>)"
    by (simp add: z)
  have t3: "trace (snd (cmdEnsure [] ?w3))
       = [getArgs ''gitprofile.default'', getGlobalArgs ''gitprofile.default'',
          [''config'', ''user.name'', ''Bob B''], [''config'', ''user.email'', ''b@x.com''],
          [''config'', ''core.sshCommand'', ''ssh -i /home/bob/.ssh/id_bob -F /dev/null'']]"
    unfolding c3
    by (simp add: more_world_defs world_defs store_defs cmd_defs git_defs)
  from r1 r2 r3 m c1 c2 c3 t3 show ?thesis by simp
qed

lemma cmdCurrent_eq:
  "cmdCurrent args w =
     (if \<not> ok (git w (getArgs ''user.name'')) \<and> \<not> ok (git w (getArgs ''user.email''))
      then (Return (Some NoIdentity),
            w\<lparr>trace := trace w @ [getArgs ''user.name'', getArgs ''user.email'']\<rparr>)
      else (Return None,
            w\<lparr>stdout := stdout w
                 @ identityLines (commandOutput w (getArgs ''user.name''))
                     (commandOutput w (getArgs ''user.email''))
                 @ sshLine (commandOutput w (getArgs ''core.sshCommand''))
                 @ defaultLine ''local'' (commandOutput w (getArgs ''gitprofile.default''))
                 @ defaultLine ''global'' (commandOutput w (getGlobalArgs ''gitprofile.default'')),
               trace := trace w @ [getArgs ''user.name'', getArgs ''user.email'',
                 getArgs ''core.sshCommand'', getArgs ''gitprofile.default'',
                 getGlobalArgs ''gitprofile.default'']\<rparr>))"
  by (simp add: cmdCurrent_def getGitConfig_def getGitConfigGlobal_def getArgs_def
      getGlobalArgs_def printOut_def Let_def commandOutput_def)



section \<open>Who writes the config file\<close>

lemma runGitConfig_frame [simp]:
  "files (snd (runGitConfig scope key val w)) = files w"
  "loads (snd (runGitConfig scope key val w)) = loads w"
  by (simp_all add: runGitConfig_eq)

lemma applyProfile_frame [simp]:
  "files (snd (applyProfile p scope w)) = files w"
  "loads (snd (applyProfile p scope w)) = loads w"
  by (simp_all add: applyProfile_def runGitConfig_eq unsetSshCommand_def
      split: option.splits)

lemma chooseFrom_frame [simp]:
  "files (snd (chooseFrom applyProfile cfg ids w)) = files w"
  "loads (snd (chooseFrom applyProfile cfg ids w)) = loads w"
proof -
  have "files (snd (chooseFrom applyProfile cfg ids w)) = files w
        \<and> loads (snd (chooseFrom applyProfile cfg ids w)) = loads w"
  proof (cases "sscanfD (TrimSpace (readLine (stdin w)))")
    case None
    then show ?thesis by (simp add: chooseFrom_def Let_def printOut_def)
  next
    case (Some k)
    let ?p = "mapIndex (Profiles cfg) (ids ! nat (k - 1))"
    let ?w = "printOut [S ''Enter number: ''] w"
    obtain r w2 where a: "applyProfile ?p ''local'' ?w = (r, w2)"
      by (cases "applyProfile ?p ''local'' ?w")
    from a have "w2 = snd (applyProfile ?p ''local'' ?w)" by simp
    then have "files w2 = files w \<and> loads w2 = loads w"
      by (simp add: printOut_def)
    then show ?thesis
      using Some a by (cases r) (simp_all add: chooseFrom_def Let_def printOut_def)
  qed
  then show "files (snd (chooseFrom applyProfile cfg ids w)) = files w"
    and "loads (snd (chooseFrom applyProfile cfg ids w)) = loads w"
    by simp_all
qed

lemma cmdChoose_frame:
  "files (snd (cmdChoose args w)) = files w" "loads (snd (cmdChoose args w)) = loads w + 1"
proof -
  obtain r w1 where l: "loadConfig w = (r, w1)" by (cases "loadConfig w")
  note w1 = loadConfig_world' [OF l]
  have "files (snd (cmdChoose args w)) = files w \<and> loads (snd (cmdChoose args w)) = loads w + 1"
    using l w1
    by (cases r) (auto simp: cmdChoose_def Let_def printOut_def)
  then show "files (snd (cmdChoose args w)) = files w"
    and "loads (snd (cmdChoose args w)) = loads w + 1"
    by simp_all
qed

lemma cmdList_frame:
  "files (snd (cmdList args w)) = files w \<and> loads (snd (cmdList args w)) = loads w + 1"
proof -
  obtain r w1 where l: "loadConfig w = (r, w1)" by (cases "loadConfig w")
  note w1 = loadConfig_world' [OF l]
  show ?thesis
    using l w1 by (cases r) (auto simp: cmdList_def printOut_def)
qed

lemma cmdUse_frame:
  "files (snd (cmdUse args w)) = files w \<and> loads (snd (cmdUse args w)) \<le> loads w + 1"
proof (cases "flagParse globalFlag args []")
  case (Parsed vs rest)
  show ?thesis
  proof (cases rest)
    case Nil
    then show ?thesis using Parsed by (simp add: cmdUse_def)
  next
    case (Cons pid rest')
    obtain r w1 where l: "loadConfig w = (r, w1)" by (cases "loadConfig w")
    note w1 = loadConfig_world' [OF l]
    show ?thesis
    proof (cases r)
      case (Inl e)
      then show ?thesis using Parsed Cons l w1 by (simp add: cmdUse_def)
    next
      case (Inr cp)
      obtain cfg path where cp: "cp = (cfg, path)" by (cases cp)
      show ?thesis
      proof (cases "mapLookup (Profiles cfg) pid")
        case None
        then show ?thesis using Parsed Cons l w1 Inr cp by (simp add: cmdUse_def)
      next
        case (Some p)
        let ?scope = "if flagBool vs ''global'' then ''global'' else ''local''"
        obtain r2 w2 where a: "applyProfile p ?scope w1 = (r2, w2)"
          by (cases "applyProfile p ?scope w1")
        from a have "w2 = snd (applyProfile p ?scope w1)" by simp
        then have "files w2 = files w \<and> loads w2 = loads w + 1"
          using w1 by simp
        then show ?thesis
          using Parsed Cons l Inr cp Some a
          by (cases r2) (simp_all add: cmdUse_def Let_def printOut_def)
      qed
    qed
  qed
qed (simp_all add: cmdUse_def flagExit_def)

lemma cmdSetDefault_frame:
  "files (snd (cmdSetDefault args w)) = files w
   \<and> loads (snd (cmdSetDefault args w)) \<le> loads w + 1"
proof (cases "flagParse globalFlag args []")
  case (Parsed vs rest)
  show ?thesis
  proof (cases rest)
    case Nil
    then show ?thesis using Parsed by (simp add: cmdSetDefault_def)
  next
    case (Cons pid rest')
    obtain r w1 where l: "loadConfig w = (r, w1)" by (cases "loadConfig w")
    note w1 = loadConfig_world' [OF l]
    show ?thesis
    proof (cases r)
      case (Inl e)
      then show ?thesis using Parsed Cons l w1 by (simp add: cmdSetDefault_def)
    next
      case (Inr cp)
      obtain cfg path where cp: "cp = (cfg, path)" by (cases cp)
      let ?scope = "if flagBool vs ''global'' then ''global'' else ''local''"
      obtain r2 w2 where a: "runGitConfig ?scope ''gitprofile.default'' pid w1 = (r2, w2)"
        by (cases "runGitConfig ?scope ''gitprofile.default'' pid w1")
      from a have "w2 = snd (runGitConfig ?scope ''gitprofile.default'' pid w1)" by simp
      then have "files w2 = files w \<and> loads w2 = loads w + 1"
        using w1 by simp
      then show ?thesis
        using Parsed Cons l w1 Inr cp a
        by (cases r2) (simp_all add: cmdSetDefault_def Let_def printOut_def)
    qed
  qed
qed (simp_all add: cmdSetDefault_def flagExit_def)

lemma cmdCurrent_frame:
  "files (snd (cmdCurrent args w)) = files w \<and> loads (snd (cmdCurrent args w)) = loads w"
  by (simp add: cmdCurrent_eq)

lemma cmdEnsure_frame:
  "files (snd (cmdEnsure args w)) = files w \<and> loads (snd (cmdEnsure args w)) \<le> loads w + 2"
proof -
  obtain r w1 where l: "loadConfig w = (r, w1)" by (cases "loadConfig w")
  note w1 = loadConfig_world' [OF l]
  show ?thesis
  proof (cases r)
    case (Inl e)
    then show ?thesis using l w1 by (simp add: cmdEnsure_def)
  next
    case (Inr cp)
    obtain cfg path where cp: "cp = (cfg, path)" by (cases cp)
    from l Inr cp have lp: "loadConfig w = (Inr (cfg, path), w1)" by simp
    show ?thesis
    proof (cases "mapLen (Profiles cfg) = 0")
      case True
      then show ?thesis using lp w1 by (simp add: cmdEnsure_def)
    next
      case False
      show ?thesis
        unfolding cmdEnsure_nonempty [OF lp False]
        by (simp add: returned_def cmdChoose_frame split: option.splits)
    qed
  qed
qed

lemma writeHooks_other:
  "\<forall>n \<in> set names. joinPath d n \<noteq> path \<Longrightarrow>
   files (snd (writeHooks d names w)) path = files w path
   \<and> loads (snd (writeHooks d names w)) = loads w"
  by (induction names arbitrary: w) (auto simp: Let_def)

lemma joinPath_last: "name \<noteq> [] \<Longrightarrow> last (joinPath d name) = last name"
  by (simp add: joinPath_def)

lemma defaultConfigPath_last:
  "defaultConfigPath w = Inr path \<Longrightarrow> last path = CHR ''n''"
  by (auto simp: defaultConfigPath_def Let_def joinPath_last split: option.splits if_splits)

lemma cmdInstallHooks_frame:
  "loads (snd (cmdInstallHooks args w)) = loads w
   \<and> (\<forall>path. defaultConfigPath w = Inr path
        \<longrightarrow> files (snd (cmdInstallHooks args w)) path = files w path)"
proof -
  let ?hooks = "[''prepare-commit-msg'', ''pre-push'']"
  let ?w1 = "w\<lparr>trace := trace w @ [[''rev-parse'', ''--git-dir'']]\<rparr>"
  have g: "gitDir w = (commandOutput w [''rev-parse'', ''--git-dir''], ?w1)"
    by (simp add: gitDir_def Let_def)
  show ?thesis
  proof (cases "commandOutput w [''rev-parse'', ''--git-dir'']")
    case (Inl e)
    then show ?thesis using g by (simp add: cmdInstallHooks_def)
  next
    case (Inr gd)
    let ?dir = "joinPath gd ''hooks''"
    show ?thesis
    proof (cases "osFails w ''MkdirAll'' ?dir")
      case True
      then show ?thesis using g Inr by (simp add: cmdInstallHooks_def)
    next
      case False
      obtain r2 w2 where wh: "writeHooks ?dir ?hooks ?w1 = (r2, w2)"
        by (cases "writeHooks ?dir ?hooks ?w1")
      have other: "files w2 path = files w path" if "defaultConfigPath w = Inr path" for path
      proof -
        from defaultConfigPath_last [OF that]
        have "\<forall>n \<in> set ?hooks. joinPath ?dir n \<noteq> path"
          using joinPath_last [of "''prepare-commit-msg''" ?dir]
            joinPath_last [of "''pre-push''" ?dir]
          by auto
        from writeHooks_other [OF this, of ?w1] wh show ?thesis by simp
      qed
      have ld: "loads w2 = loads w"
        using wh by (auto simp: Let_def split: if_splits)
      have c: "cmdInstallHooks args w
          = (case r2 of
               Some e \<Rightarrow> (Return (Some e), w2)
             | None \<Rightarrow>
                 (Return None,
                  printOut
                    [S (''Installed git-profile hooks in '' @ ?dir @ nl),
                     S (''From now on, normal `git commit` and `git push` will apply/ask for a profile.'' @ nl)]
                    w2))"
        using g Inr False wh by (simp add: cmdInstallHooks_def Let_def del: writeHooks.simps)
      show ?thesis
        unfolding c using other ld by (cases r2) (simp_all add: printOut_def)
    qed
  qed
qed

text \<open>
  C9, amended. None of list, use, current, choose, set-default, ensure and
  install-hooks changes the file at the default config path, whether it succeeds or
  fails (the first six change no file at all). list and choose call loadConfig once,
  use and set-default at most once, current and install-hooks never, and ensure at
  most twice: once itself and once more in the cmdChoose it falls through to.
\<close>

theorem only_add_writes_config:
  "files (snd (cmdList args w)) = files w \<and> loads (snd (cmdList args w)) = loads w + 1
   \<and> files (snd (cmdUse args w)) = files w \<and> loads (snd (cmdUse args w)) \<le> loads w + 1
   \<and> files (snd (cmdCurrent args w)) = files w \<and> loads (snd (cmdCurrent args w)) = loads w
   \<and> files (snd (cmdChoose args w)) = files w \<and> loads (snd (cmdChoose args w)) = loads w + 1
   \<and> files (snd (cmdSetDefault args w)) = files w
   \<and> loads (snd (cmdSetDefault args w)) \<le> loads w + 1
   \<and> files (snd (cmdEnsure args w)) = files w \<and> loads (snd (cmdEnsure args w)) \<le> loads w + 2
   \<and> loads (snd (cmdInstallHooks args w)) = loads w
   \<and> (\<forall>path. defaultConfigPath w = Inr path
        \<longrightarrow> files (snd (cmdInstallHooks args w)) path = files w path)"
  using cmdList_frame cmdUse_frame cmdCurrent_frame cmdChoose_frame cmdSetDefault_frame
    cmdEnsure_frame cmdInstallHooks_frame
  by presburger

theorem only_add_writes_config_witness:
  "defaultConfigPath repoWorld = Inr cfgPath
   \<and> fst (cmdInstallHooks [] repoWorld) = Return None
   \<and> files (snd (cmdInstallHooks [] repoWorld)) ''.git/hooks/pre-push'' = Some (Raw hookContent)
   \<and> files (snd (cmdInstallHooks [] repoWorld)) cfgPath = files repoWorld cfgPath"
proof -
  have p: "defaultConfigPath repoWorld = Inr cfgPath"
    by (simp add: repoWorld_def world_defs store_defs)
  have r: "fst (cmdInstallHooks [] repoWorld) = Return None"
    "files (snd (cmdInstallHooks [] repoWorld)) ''.git/hooks/pre-push'' = Some (Raw hookContent)"
    by (simp_all add: repoWorld_def world_defs cmd_defs git_defs joinPath_def Let_def)
  from only_add_writes_config [of "[]" repoWorld] p
  have "files (snd (cmdInstallHooks [] repoWorld)) cfgPath = files repoWorld cfgPath"
    by blast
  with p r show ?thesis by simp
qed

text \<open>
  C9 as stated fails on ensure: with alice and bob stored and no default set it loads
  the config twice.
\<close>

theorem ensure_loads_twice_counterexample:
  "loads (typed ''2'') = 0 \<and> loads (snd (cmdEnsure [] (typed ''2''))) = 2"
  by (simp add: typed_def world_defs store_defs cmd_defs git_defs)

section \<open>Exit codes\<close>




lemma applyProfile_returns: "alwaysReturns (returned (applyProfile p scope w))"
  by (simp add: alwaysReturns_def returned_def)

















end
